(* ===== verification/Prelude.thy ===== *)
theory Prelude
  imports Complex_Main
begin

text \<open>
  Shared vocabulary of the chicken-game development: the types that name the model's
  values (Kivy vectors and rectangles as pairs and tuples of reals), the random source
  the obstacle generator draws from, Python's list item assignment with its
  \<open>IndexError\<close>, and the generic lemmas on them that the component theories use.
  Python floats are modelled as exact reals: no claim of the development depends on
  rounding.
\<close>

named_theorems wf_simps "facts that unfold the well-formedness invariants of the model"

type_synonym vec = "real \<times> real"
  \<comment> \<open>a \<open>kivy.vector.Vector\<close> or a coordinate pair \<open>(x, y)\<close>\<close>

type_synonym rect = "real \<times> real \<times> real \<times> real"
  \<comment> \<open>a collision rectangle \<open>(x, y, width, height)\<close>, lower left corner first\<close>

type_synonym 'g rng = "'g \<Rightarrow> real \<times> 'g"
  \<comment> \<open>one call of \<open>random.random()\<close>: a draw and the generator's next state\<close>

subsection \<open>Draws from the random source\<close>

text \<open>
  \<open>draws rnd g n\<close> are the values of \<open>n\<close> successive calls of \<open>random.random()\<close>
  from generator state \<open>g\<close>, and \<open>rng_after rnd g n\<close> the state they leave.
\<close>

fun draws :: "'g rng \<Rightarrow> 'g \<Rightarrow> nat \<Rightarrow> real list" where
  "draws rnd g 0 = []"
| "draws rnd g (Suc n) = fst (rnd g) # draws rnd (snd (rnd g)) n"

fun rng_after :: "'g rng \<Rightarrow> 'g \<Rightarrow> nat \<Rightarrow> 'g" where
  "rng_after rnd g 0 = g"
| "rng_after rnd g (Suc n) = rng_after rnd (snd (rnd g)) n"

text \<open>A replay source: the draws are given as a list, as a seeded generator would
  produce them (an exhausted list draws 0).\<close>

fun list_rng :: "real list rng" where
  "list_rng [] = (0, [])"
| "list_rng (d # ds) = (d, ds)"

subsection \<open>Python list item assignment\<close>

text \<open>
  \<open>xs[i] = v\<close> in Python raises \<open>IndexError\<close> when \<open>i\<close> is out of range; the
  model returns \<open>None\<close> there.
\<close>

definition py_setitem :: "'a list \<Rightarrow> nat \<Rightarrow> 'a \<Rightarrow> 'a list option" where
  "py_setitem xs i v = (if i < length xs then Some (xs[i := v]) else None)"

subsection \<open>Generic lemmas\<close>

lemma length_draws [simp]: "length (draws rnd g n) = n"
  by (induction n arbitrary: g) simp_all

lemma py_setitem_in_range [simp]:
  "i < length xs \<Longrightarrow> py_setitem xs i v = Some (xs[i := v])"
  by (simp add: py_setitem_def)

lemma py_setitem_Some_iff:
  "py_setitem xs i v = Some ys \<longleftrightarrow> i < length xs \<and> ys = xs[i := v]"
  by (auto simp: py_setitem_def)

lemma py_setitem_length:
  "py_setitem xs i v = Some ys \<Longrightarrow> length ys = length xs"
  by (auto simp: py_setitem_Some_iff)

lemma set_upt_Suc_shift: "Suc ` {i..<j} = {Suc i..<Suc j}"
  by (simp add: image_Suc_atLeastLessThan)

end
