(* ===== verification/Score.thy ===== *)
theory Score
  imports Prelude
begin

text \<open>
  The score keeper, \<open>src/widgets/score_manager.py\<close>, class \<open>ScoreManager\<close>: the
  current score, the high score and the difficulty level derived from the score. Its
  invariant \<open>score_inv\<close> ties the three together; both operations keep it, and the
  high score never decreases over any sequence of operations.
\<close>

record score_manager =
  current_score :: int
  high_score :: int
  difficulty_level :: int

text \<open>\<open>ScoreManager.__init__\<close>.\<close>

definition score_manager_init :: score_manager where
  "score_manager_init = \<lparr>current_score = 0, high_score = 0, difficulty_level = 1\<rparr>"

text \<open>\<open>ScoreManager.add_point\<close>: called once per wall hit.\<close>

definition add_point :: "score_manager \<Rightarrow> score_manager" where
  "add_point sm =
     (let cur = current_score sm + 1;
          hi = (if cur > high_score sm then cur else high_score sm)
      in sm\<lparr>current_score := cur, high_score := hi, difficulty_level := 1 + cur div 5\<rparr>)"

text \<open>\<open>ScoreManager.reset_current_score\<close>: the high score is kept.\<close>

definition reset_current_score :: "score_manager \<Rightarrow> score_manager" where
  "reset_current_score sm = sm\<lparr>current_score := 0, difficulty_level := 1\<rparr>"

text \<open>The two operations as a datatype, and a run of them in order.\<close>

datatype score_op = AddPoint | ResetCurrentScore

primrec score_apply :: "score_manager \<Rightarrow> score_op \<Rightarrow> score_manager" where
  "score_apply sm AddPoint = add_point sm"
| "score_apply sm ResetCurrentScore = reset_current_score sm"

definition score_run :: "score_manager \<Rightarrow> score_op list \<Rightarrow> score_manager" where
  "score_run sm ops = foldl score_apply sm ops"

definition score_inv :: "score_manager \<Rightarrow> bool" where
  "score_inv sm \<longleftrightarrow>
     0 \<le> current_score sm \<and> current_score sm \<le> high_score sm
     \<and> difficulty_level sm = 1 + current_score sm div 5"

declare score_inv_def [wf_simps]

subsection \<open>Behaviour of each operation\<close>

lemma add_point_fields:
  "current_score (add_point sm) = current_score sm + 1"
  "high_score (add_point sm) = max (high_score sm) (current_score sm + 1)"
  "difficulty_level (add_point sm) = 1 + (current_score sm + 1) div 5"
  by (simp_all add: add_point_def Let_def max_def)

lemma reset_current_score_fields:
  "current_score (reset_current_score sm) = 0"
  "high_score (reset_current_score sm) = high_score sm"
  "difficulty_level (reset_current_score sm) = 1"
  by (simp_all add: reset_current_score_def)

lemmas score_fields = add_point_fields reset_current_score_fields

lemma score_apply_high_mono: "high_score sm \<le> high_score (score_apply sm op)"
  by (cases op) (simp_all add: score_fields)

text \<open>C18 The difficulty level after a point is \<open>1 + floor(score / 5)\<close> of the new score, the
  score grows by exactly one and the high score becomes the maximum of the old high score
  and the new score.\<close>

theorem add_point_spec:
  "current_score (add_point sm) = current_score sm + 1
   \<and> difficulty_level (add_point sm) = 1 + current_score (add_point sm) div 5
   \<and> high_score (add_point sm) = max (high_score sm) (current_score (add_point sm))"
  by (simp add: score_fields)

lemma score_inv_init: "score_inv score_manager_init"
  by (simp add: wf_simps score_manager_init_def)

lemma add_point_inv: "score_inv sm \<Longrightarrow> score_inv (add_point sm)"
  by (auto simp: wf_simps score_fields)

lemma reset_current_score_inv: "score_inv sm \<Longrightarrow> score_inv (reset_current_score sm)"
  by (simp add: wf_simps score_fields)

text \<open>C19 Both operations preserve the score invariant (non-negative score, bounded by
  the high score, difficulty derived from the score), and the initial state satisfies it.\<close>

theorem score_inv_preserved:
  "score_inv score_manager_init
   \<and> (score_inv sm \<longrightarrow> score_inv (add_point sm))
   \<and> (score_inv sm \<longrightarrow> score_inv (reset_current_score sm))"
  by (simp add: score_inv_init add_point_inv reset_current_score_inv)

lemma score_inv_apply: "score_inv sm \<Longrightarrow> score_inv (score_apply sm op)"
  by (cases op) (simp_all add: add_point_inv reset_current_score_inv)

text \<open>C20 The high score never decreases over any sequence of \<open>add_point\<close> and
  \<open>reset_current_score\<close> calls, and it is never below the score reached.\<close>

theorem score_run_high_mono:
  "high_score sm \<le> high_score (score_run sm ops)
   \<and> (score_inv sm \<longrightarrow> score_inv (score_run sm ops))"
proof (induction ops arbitrary: sm)
  case Nil
  then show ?case by (simp add: score_run_def)
next
  case (Cons op ops)
  have "high_score sm \<le> high_score (score_apply sm op)"
    by (rule score_apply_high_mono)
  with Cons.IH [of "score_apply sm op"] show ?case
    by (auto simp: score_run_def score_inv_apply)
qed

text \<open>The spec's examples: scores 0, 5 and 12 give levels 1, 2 and 3 after a run from
  the initial state.\<close>

theorem difficulty_examples:
  "difficulty_level score_manager_init = 1
   \<and> difficulty_level (score_run score_manager_init (replicate 5 AddPoint)) = 2
   \<and> difficulty_level (score_run score_manager_init (replicate 12 AddPoint)) = 3
   \<and> high_score (score_run score_manager_init
        (replicate 12 AddPoint @ [ResetCurrentScore, AddPoint])) = 12"
  by (simp add: score_run_def score_manager_init_def add_point_def Let_def
      reset_current_score_def numeral_eq_Suc)

subsection \<open>Witnesses\<close>

theorem score_inv_preserved_witness:
  "score_inv score_manager_init \<and> score_inv (add_point score_manager_init)
   \<and> score_inv (reset_current_score (add_point score_manager_init))"
proof -
  have i: "score_inv score_manager_init"
    using score_inv_preserved [of score_manager_init] by simp
  have a: "score_inv (add_point score_manager_init)"
    using score_inv_preserved [of score_manager_init] by simp
  have "score_inv (reset_current_score (add_point score_manager_init))"
    using score_inv_preserved [of "add_point score_manager_init"] a by simp
  with i a show ?thesis by simp
qed

theorem score_run_high_mono_witness:
  "score_inv score_manager_init
   \<and> 0 \<le> high_score (score_run score_manager_init [AddPoint, ResetCurrentScore])
   \<and> score_inv (score_run score_manager_init [AddPoint, ResetCurrentScore])"
proof -
  have i: "score_inv score_manager_init"
    by (simp add: score_inv_def score_manager_init_def)
  from score_run_high_mono [of score_manager_init "[AddPoint, ResetCurrentScore]"] i
  show ?thesis by (simp add: score_manager_init_def)
qed

end
