(* ===== verification/Spike.thy ===== *)
theory Spike
  imports Prelude
begin

text \<open>
  The obstacle primitive, \<open>src/widgets/obstacles.py\<close>, class \<open>Spike\<close>: a position,
  a size and an orientation fixed at creation. Collision is the axis-aligned rectangle
  test with strict inequalities, whatever the orientation; the triangle is drawing only.
  The lemmas show that the test is the open-rectangle overlap (so touching edges never
  collide, and the test is symmetric), and that the triangle lies in the collision box
  with its tip on the side the spike points to.
\<close>

record spike =
  spike_x :: real
  spike_y :: real
  spike_width :: real
  spike_height :: real
  pointing_right :: bool

text \<open>\<open>Spike.__init__(x, y, width=50, height=25, pointing_right=True)\<close>; the defaults
  are the arguments of \<open>make_spike_default\<close>.\<close>

definition make_spike :: "real \<Rightarrow> real \<Rightarrow> real \<Rightarrow> real \<Rightarrow> bool \<Rightarrow> spike" where
  "make_spike x y w h pr =
     \<lparr>spike_x = x, spike_y = y, spike_width = w, spike_height = h, pointing_right = pr\<rparr>"

definition make_spike_default :: "real \<Rightarrow> real \<Rightarrow> spike" where
  "make_spike_default x y = make_spike x y 50 25 True"

text \<open>\<open>Spike.get_collision_rect\<close>.\<close>

definition get_collision_rect :: "spike \<Rightarrow> rect" where
  "get_collision_rect s = (spike_x s, spike_y s, spike_width s, spike_height s)"

text \<open>\<open>Spike.get_triangle_points\<close>: the flat list \<open>[x1, y1, x2, y2, x3, y3]\<close>.\<close>

definition get_triangle_points :: "spike \<Rightarrow> real list" where
  "get_triangle_points s =
     (if pointing_right s then
        [spike_x s, spike_y s,
         spike_x s, spike_y s + spike_height s,
         spike_x s + spike_width s, spike_y s + spike_height s / 2]
      else
        [spike_x s + spike_width s, spike_y s,
         spike_x s + spike_width s, spike_y s + spike_height s,
         spike_x s, spike_y s + spike_height s / 2])"

text \<open>\<open>Spike.check_collision(chicken_rect)\<close>.\<close>

definition check_collision :: "spike \<Rightarrow> rect \<Rightarrow> bool" where
  "check_collision s chicken_rect =
     (case chicken_rect of (cx, cy, cw, ch) \<Rightarrow>
      case get_collision_rect s of (sx, sy, sw, sh) \<Rightarrow>
        cx < sx + sw \<and> cx + cw > sx \<and> cy < sy + sh \<and> cy + ch > sy)"

text \<open>
  The reference notion: two rectangles overlap when their open interiors meet on both
  axes. For a rectangle of non-negative size, its interior on an axis is the open
  interval from its corner to corner plus size.
\<close>

definition rect_overlap :: "rect \<Rightarrow> rect \<Rightarrow> bool" where
  "rect_overlap a b =
     (case a of (ax, ay, aw, ah) \<Rightarrow> case b of (bx, by, bw, bh) \<Rightarrow>
        {ax<..<ax + aw} \<inter> {bx<..<bx + bw} \<noteq> {} \<and> {ay<..<ay + ah} \<inter> {by<..<by + bh} \<noteq> {})"

definition rect_contains :: "rect \<Rightarrow> real \<times> real \<Rightarrow> bool" where
  "rect_contains r p =
     (case r of (x, y, w, h) \<Rightarrow> x \<le> fst p \<and> fst p \<le> x + w \<and> y \<le> snd p \<and> snd p \<le> y + h)"

fun point_pairs :: "real list \<Rightarrow> (real \<times> real) list" where
  "point_pairs (x # y # rest) = (x, y) # point_pairs rest"
| "point_pairs _ = []"

subsection \<open>Collision\<close>

lemma interval_meet_iff:
  fixes a b c d :: real
  assumes "0 < b" and "0 < d"
  shows "{a<..<a + b} \<inter> {c<..<c + d} \<noteq> {} \<longleftrightarrow> a < c + d \<and> c < a + b"
proof
  assume "{a<..<a + b} \<inter> {c<..<c + d} \<noteq> {}"
  then obtain t where "t \<in> {a<..<a + b}" and "t \<in> {c<..<c + d}" by blast
  then show "a < c + d \<and> c < a + b" by auto
next
  assume h: "a < c + d \<and> c < a + b"
  define t where "t = (max a c + min (a + b) (c + d)) / 2"
  have "a < t \<and> t < a + b \<and> c < t \<and> t < c + d"
    using h assms unfolding t_def by (simp add: max_def min_def)
  then show "{a<..<a + b} \<inter> {c<..<c + d} \<noteq> {}" by auto
qed

text \<open>C29 For a chicken box and a spike of positive size, \<open>check_collision\<close> holds exactly
  when the open rectangles overlap: the strict test is the interior-overlap test.\<close>

theorem check_collision_overlap:
  assumes "0 < cw" and "0 < ch" and "0 < spike_width s" and "0 < spike_height s"
  shows "check_collision s (cx, cy, cw, ch) = rect_overlap (cx, cy, cw, ch) (get_collision_rect s)"
  using assms
  by (simp add: check_collision_def rect_overlap_def get_collision_rect_def interval_meet_iff)
     (auto)

text \<open>Boxes that only touch a spike's box, along a vertical or a horizontal edge, do
  not collide with it.\<close>

theorem check_collision_touching:
  "\<not> check_collision s (spike_x s + spike_width s, cy, cw, ch)
   \<and> \<not> check_collision s (spike_x s - cw, cy, cw, ch)
   \<and> \<not> check_collision s (cx, spike_y s + spike_height s, cw, ch)
   \<and> \<not> check_collision s (cx, spike_y s - ch, cw, ch)"
  by (simp add: check_collision_def get_collision_rect_def)

subsection \<open>Triangle geometry\<close>

text \<open>Every vertex of a spike's triangle lies inside its collision rectangle, and the tip
  (third vertex) is on the wall-facing-away side: the right edge for a spike pointing right,
  the left edge otherwise, at half height.\<close>

theorem triangle_in_collision_rect:
  assumes "0 \<le> spike_width s" and "0 \<le> spike_height s"
  shows "length (point_pairs (get_triangle_points s)) = 3
    \<and> (\<forall>p \<in> set (point_pairs (get_triangle_points s)). rect_contains (get_collision_rect s) p)
    \<and> point_pairs (get_triangle_points s) ! 2
        = (if pointing_right s then spike_x s + spike_width s else spike_x s,
           spike_y s + spike_height s / 2)"
  using assms
  by (simp add: get_triangle_points_def rect_contains_def get_collision_rect_def)

subsection \<open>Witnesses\<close>

theorem check_collision_overlap_witness:
  "check_collision (make_spike 0 0 40 33 True) (10, 5, 30, 30)
   = rect_overlap (10, 5, 30, 30) (get_collision_rect (make_spike 0 0 40 33 True))
   \<and> check_collision (make_spike 0 0 40 33 True) (10, 5, 30, 30)"
proof -
  have "check_collision (make_spike 0 0 40 33 True) (10, 5, 30, 30)
        = rect_overlap (10, 5, 30, 30) (get_collision_rect (make_spike 0 0 40 33 True))"
    by (rule check_collision_overlap) (simp_all add: make_spike_def)
  moreover have "check_collision (make_spike 0 0 40 33 True) (10, 5, 30, 30)"
    by (simp add: check_collision_def get_collision_rect_def make_spike_def)
  ultimately show ?thesis by simp
qed

theorem triangle_in_collision_rect_witness:
  "point_pairs (get_triangle_points (make_spike_default 3 4)) ! 2 = (53, 33 / 2)
   \<and> rect_contains (get_collision_rect (make_spike_default 3 4)) (3, 4)"
proof -
  have "length (point_pairs (get_triangle_points (make_spike_default 3 4))) = 3
    \<and> (\<forall>p \<in> set (point_pairs (get_triangle_points (make_spike_default 3 4))).
         rect_contains (get_collision_rect (make_spike_default 3 4)) p)
    \<and> point_pairs (get_triangle_points (make_spike_default 3 4)) ! 2
        = (if pointing_right (make_spike_default 3 4)
           then spike_x (make_spike_default 3 4) + spike_width (make_spike_default 3 4)
           else spike_x (make_spike_default 3 4),
           spike_y (make_spike_default 3 4) + spike_height (make_spike_default 3 4) / 2)"
    by (rule triangle_in_collision_rect) (simp_all add: make_spike_default_def make_spike_def)
  then show ?thesis
    by (simp add: make_spike_default_def make_spike_def get_triangle_points_def)
qed

end
