(* ===== verification/Chicken.thy ===== *)
theory Chicken
  imports Prelude
begin

text \<open>
  The player character, \<open>src/widgets/character.py\<close>, class \<open>Chicken\<close>. Kivy's mutable
  \<open>Vector\<close> objects are pairs of reals, and \<open>update\<close> returns the new chicken beside
  its Python result \<open>(wall_hit, (x, y))\<close>. The horizontal bounce of lines 33--42 is
  \<open>wall_bounce\<close>; \<open>chicken_update\<close> is the whole method. The lemmas give each branch
  of \<open>update\<close>: the sentinel for a dead chicken, the clamp into \<open>[r, w - r]\<close>, the
  bounce flag and direction flip, and the death test on the vertical bounds.
\<close>

record chicken =
  pos :: vec
  velocity :: vec
  gravity_velocity :: vec
  chicken_size :: int
  radius :: int
  gravity :: real
  jump_force :: real
  alive :: bool

text \<open>\<open>Chicken.__init__(x, y, size=30)\<close>; \<open>size // 2\<close> is floor division on ints.\<close>

definition make_chicken :: "real \<Rightarrow> real \<Rightarrow> int \<Rightarrow> chicken" where
  "make_chicken x y sz =
     \<lparr>pos = (x, y), velocity = (180, 0), gravity_velocity = (0, 0),
      chicken_size = sz, radius = sz div 2, gravity = -981, jump_force = 400, alive = True\<rparr>"

text \<open>\<open>Chicken.jump\<close>: sets (does not add to) the vertical velocity.\<close>

definition jump :: "chicken \<Rightarrow> chicken" where
  "jump c =
     (if alive c then c\<lparr>gravity_velocity := (fst (gravity_velocity c), jump_force c)\<rparr> else c)"

text \<open>Lines 33--42 of \<open>Chicken.update\<close>: the new \<open>x\<close>, the new horizontal velocity and
  \<open>wall_hit\<close>. The left wall is tested first (\<open>if\<close>/\<open>elif\<close>).\<close>

definition wall_bounce :: "real \<Rightarrow> real \<Rightarrow> real \<Rightarrow> real \<Rightarrow> real \<times> real \<times> bool" where
  "wall_bounce r w x vx =
     (if x \<le> r then (r, \<bar>vx\<bar>, True)
      else if x \<ge> w - r then (w - r, - \<bar>vx\<bar>, True)
      else (x, vx, False))"

text \<open>\<open>Chicken.update(dt, game_bounds)\<close>.\<close>

definition chicken_update :: "real \<Rightarrow> real \<times> real \<Rightarrow> chicken \<Rightarrow> (bool \<times> vec) \<times> chicken" where
  "chicken_update dt game_bounds c =
     (if \<not> alive c then ((False, (0, 0)), c)
      else
        (let gvy = snd (gravity_velocity c) + gravity c * dt;
             x = fst (pos c) + fst (velocity c) * dt;
             y = snd (pos c) + gvy * dt;
             r = real_of_int (radius c)
         in case wall_bounce r (fst game_bounds) x (fst (velocity c)) of
              (x', vx', wall_hit) \<Rightarrow>
                let c' = c\<lparr>gravity_velocity := (fst (gravity_velocity c), gvy),
                           pos := (x', y), velocity := (vx', snd (velocity c))\<rparr>;
                    c'' = (if y \<le> r \<or> y \<ge> snd game_bounds - r then c'\<lparr>alive := False\<rparr> else c')
                in ((wall_hit, (x', y)), c'')))"

text \<open>\<open>Chicken.get_rect\<close>: a square of side \<open>size\<close> with corner \<open>pos - radius\<close>.\<close>

definition get_rect :: "chicken \<Rightarrow> rect" where
  "get_rect c =
     (fst (pos c) - real_of_int (radius c), snd (pos c) - real_of_int (radius c),
      real_of_int (chicken_size c), real_of_int (chicken_size c))"

subsection \<open>The step of a living chicken, field by field\<close>

text \<open>The unclamped position and the new vertical velocity of a tick.\<close>

definition raw_x :: "real \<Rightarrow> chicken \<Rightarrow> real" where
  "raw_x dt c = fst (pos c) + fst (velocity c) * dt"

definition new_gvy :: "real \<Rightarrow> chicken \<Rightarrow> real" where
  "new_gvy dt c = snd (gravity_velocity c) + gravity c * dt"

definition raw_y :: "real \<Rightarrow> chicken \<Rightarrow> real" where
  "raw_y dt c = snd (pos c) + new_gvy dt c * dt"

lemma chicken_update_alive:
  fixes dt :: real and gb :: "real \<times> real"
  assumes "alive c"
  defines "r \<equiv> real_of_int (radius c)"
  defines "wb \<equiv> wall_bounce r (fst gb) (raw_x dt c) (fst (velocity c))"
  shows "fst (chicken_update dt gb c) = (snd (snd wb), (fst wb, raw_y dt c))"
    and "pos (snd (chicken_update dt gb c)) = (fst wb, raw_y dt c)"
    and "velocity (snd (chicken_update dt gb c)) = (fst (snd wb), snd (velocity c))"
    and "gravity_velocity (snd (chicken_update dt gb c)) = (fst (gravity_velocity c), new_gvy dt c)"
    and "alive (snd (chicken_update dt gb c)) \<longleftrightarrow> r < raw_y dt c \<and> raw_y dt c < snd gb - r"
    and "radius (snd (chicken_update dt gb c)) = radius c"
    and "chicken_size (snd (chicken_update dt gb c)) = chicken_size c"
    and "gravity (snd (chicken_update dt gb c)) = gravity c"
    and "jump_force (snd (chicken_update dt gb c)) = jump_force c"
  using assms
  by (auto simp: chicken_update_def raw_x_def raw_y_def new_gvy_def Let_def
      split: prod.splits)

lemma chicken_update_velocity:
  "\<bar>fst (velocity (snd (chicken_update dt gb c)))\<bar> = \<bar>fst (velocity c)\<bar>
   \<and> snd (velocity (snd (chicken_update dt gb c))) = snd (velocity c)"
  by (simp add: chicken_update_def Let_def wall_bounce_def split: prod.splits)

lemma jump_velocity: "velocity (jump c) = velocity c"
  by (simp add: jump_def)

lemma wall_bounce_hit_iff: "snd (snd (wall_bounce r w x vx)) \<longleftrightarrow> x \<le> r \<or> w - r \<le> x"
  by (simp add: wall_bounce_def)

lemma wall_bounce_range:
  "r \<le> w - r \<Longrightarrow> r \<le> fst (wall_bounce r w x vx) \<and> fst (wall_bounce r w x vx) \<le> w - r"
  by (simp add: wall_bounce_def)

lemma wall_bounce_hit_cases:
  "snd (snd (wall_bounce r w x vx)) \<Longrightarrow>
     (fst (wall_bounce r w x vx) = r \<and> fst (snd (wall_bounce r w x vx)) = \<bar>vx\<bar>)
     \<or> (fst (wall_bounce r w x vx) = w - r \<and> fst (snd (wall_bounce r w x vx)) = - \<bar>vx\<bar>)"
  by (simp add: wall_bounce_def split: if_splits)

lemma wall_bounce_speed: "\<bar>fst (snd (wall_bounce r w x vx))\<bar> = \<bar>vx\<bar>"
  by (simp add: wall_bounce_def)

lemma wall_bounce_flip:
  assumes "0 < dt" and "vx \<noteq> 0" and "r \<le> x" and "x \<le> w - r"
    and "snd (snd (wall_bounce r w (x + vx * dt) vx))"
  shows "sgn (fst (snd (wall_bounce r w (x + vx * dt) vx))) = - sgn vx"
proof (cases "0 < vx")
  case True
  with assms(1) have "0 < vx * dt" by simp
  with assms(3) have "\<not> x + vx * dt \<le> r" by linarith
  with True assms(5) show ?thesis by (simp add: wall_bounce_def split: if_splits)
next
  case False
  with assms(2) have neg: "vx < 0" by simp
  with assms(1) have "vx * dt < 0" by (simp add: mult_neg_pos)
  with assms(4) have "\<not> w - r \<le> x + vx * dt" by linarith
  with assms(5) have "x + vx * dt \<le> r" by (simp add: wall_bounce_def split: if_splits)
  with neg show ?thesis by (simp add: wall_bounce_def)
qed

subsection \<open>Properties of update and jump\<close>

text \<open>C31 A dead chicken is inert: \<open>update\<close> returns the sentinel \<open>(False, (0, 0))\<close> and
  leaves the chicken unchanged, and \<open>jump\<close> does nothing.\<close>

theorem chicken_update_dead:
  "\<not> alive c \<Longrightarrow> chicken_update dt gb c = ((False, (0, 0)), c) \<and> jump c = c"
  by (simp add: chicken_update_def jump_def)

text \<open>C8 After an update of a living chicken in a field at least one chicken wide
  (\<open>2 r \<le> width\<close>), its \<open>x\<close> lies in \<open>[r, width - r]\<close>, and the position
  returned is the chicken's new position.\<close>

theorem chicken_update_x_bounds:
  assumes "alive c" and "2 * real_of_int (radius c) \<le> fst gb"
  shows "real_of_int (radius c) \<le> fst (pos (snd (chicken_update dt gb c)))
    \<and> fst (pos (snd (chicken_update dt gb c))) \<le> fst gb - real_of_int (radius c)
    \<and> snd (fst (chicken_update dt gb c)) = pos (snd (chicken_update dt gb c))"
  using assms wall_bounce_range [of "real_of_int (radius c)" "fst gb"]
  by (simp add: chicken_update_alive)

text \<open>C7 The bounce flag of a living chicken is set exactly when the unclamped \<open>x\<close>
  reaches a wall; the left wall wins and sends the chicken right at the same speed, the
  right wall sends it left, and without a bounce \<open>x\<close> and the velocity are unchanged.\<close>

theorem chicken_update_bounce:
  fixes dt :: real and gb :: "real \<times> real"
  assumes "alive c"
  defines "r \<equiv> real_of_int (radius c)" and "x \<equiv> raw_x dt c" and "vx \<equiv> fst (velocity c)"
  defines "c' \<equiv> snd (chicken_update dt gb c)"
  shows "(fst (fst (chicken_update dt gb c)) \<longleftrightarrow> x \<le> r \<or> fst gb - r \<le> x)
    \<and> (x \<le> r \<longrightarrow> fst (pos c') = r \<and> fst (velocity c') = \<bar>vx\<bar>)
    \<and> (r < x \<and> fst gb - r \<le> x \<longrightarrow> fst (pos c') = fst gb - r \<and> fst (velocity c') = - \<bar>vx\<bar>)
    \<and> (r < x \<and> x < fst gb - r \<longrightarrow> fst (pos c') = x \<and> velocity c' = velocity c)"
  using assms(1) unfolding assms(2-5)
  by (auto simp: chicken_update_alive wall_bounce_def prod_eq_iff)

text \<open>C9 With a positive time step and a chicken between the walls moving sideways,
  a bounce always reverses the sign of the horizontal velocity and keeps its speed.\<close>

theorem chicken_bounce_flips:
  assumes "alive c" and "0 < dt" and "fst (velocity c) \<noteq> 0"
    and "real_of_int (radius c) \<le> fst (pos c)"
    and "fst (pos c) \<le> fst gb - real_of_int (radius c)"
    and "fst (fst (chicken_update dt gb c))"
  shows "sgn (fst (velocity (snd (chicken_update dt gb c)))) = - sgn (fst (velocity c))
    \<and> \<bar>fst (velocity (snd (chicken_update dt gb c)))\<bar> = \<bar>fst (velocity c)\<bar>"
  using assms wall_bounce_flip [OF assms(2,3,4,5)]
  by (simp add: chicken_update_alive raw_x_def wall_bounce_speed)

text \<open>C10 A chicken is alive after an update exactly when it was alive and its new
  (unclamped) height lies strictly between \<open>r\<close> and \<open>height - r\<close>; no update brings
  a dead chicken back.\<close>

theorem chicken_update_alive_iff:
  "alive (snd (chicken_update dt gb c)) \<longleftrightarrow>
     alive c \<and> real_of_int (radius c) < raw_y dt c
     \<and> raw_y dt c < snd gb - real_of_int (radius c)"
proof (cases "alive c")
  case True
  then show ?thesis by (simp add: chicken_update_alive)
next
  case False
  then show ?thesis by (simp add: chicken_update_def)
qed

text \<open>C32 A jump of a living chicken sets its vertical velocity to the jump force,
  whatever it was, and changes nothing else.\<close>

theorem jump_sets_velocity:
  "alive c \<Longrightarrow> jump c = c\<lparr>gravity_velocity := (fst (gravity_velocity c), jump_force c)\<rparr>
    \<and> snd (gravity_velocity (jump c)) = jump_force c
    \<and> snd (gravity_velocity (jump (c\<lparr>gravity_velocity := v\<rparr>))) = jump_force c"
  by (simp add: jump_def)

subsection \<open>Witnesses\<close>

theorem chicken_update_dead_witness:
  "chicken_update (1 / 60) (1000, 700) ((make_chicken 500 350 30)\<lparr>alive := False\<rparr>)
     = ((False, (0, 0)), (make_chicken 500 350 30)\<lparr>alive := False\<rparr>)"
  using chicken_update_dead [of "(make_chicken 500 350 30)\<lparr>alive := False\<rparr>" "1 / 60" "(1000, 700)"]
  by simp

theorem chicken_update_x_bounds_witness:
  "15 \<le> fst (pos (snd (chicken_update (1 / 10) (1000, 700) (make_chicken 980 350 30))))
   \<and> fst (pos (snd (chicken_update (1 / 10) (1000, 700) (make_chicken 980 350 30)))) \<le> 985"
  using chicken_update_x_bounds [of "make_chicken 980 350 30" "(1000, 700)" "1 / 10"]
  by (simp add: make_chicken_def)

theorem chicken_update_bounce_witness:
  "fst (fst (chicken_update (1 / 10) (1000, 700) (make_chicken 980 350 30)))
   \<and> fst (pos (snd (chicken_update (1 / 10) (1000, 700) (make_chicken 980 350 30)))) = 985"
proof -
  have a: "alive (make_chicken 980 350 30)" by (simp add: make_chicken_def)
  have x: "raw_x (1 / 10) (make_chicken 980 350 30) = 998"
    by (simp add: raw_x_def make_chicken_def)
  from chicken_update_bounce [OF a, of "1 / 10" "(1000, 700)"] x
  show ?thesis by (simp add: make_chicken_def)
qed

theorem chicken_bounce_flips_witness:
  "fst (velocity (snd (chicken_update (1 / 10) (1000, 700) (make_chicken 980 350 30)))) = -180"
proof -
  have h: "alive (make_chicken 980 350 30)" "(0::real) < 1 / 10"
    "fst (velocity (make_chicken 980 350 30)) \<noteq> 0"
    "real_of_int (radius (make_chicken 980 350 30)) \<le> fst (pos (make_chicken 980 350 30))"
    "fst (pos (make_chicken 980 350 30)) \<le> fst (1000::real, 700::real) - real_of_int (radius (make_chicken 980 350 30))"
    "fst (fst (chicken_update (1 / 10) (1000, 700) (make_chicken 980 350 30)))"
    by (simp_all add: make_chicken_def chicken_update_def wall_bounce_def Let_def)
  from chicken_bounce_flips [OF h] show ?thesis
    by (simp add: make_chicken_def abs_if sgn_if split: if_splits)
qed

theorem jump_sets_velocity_witness:
  "snd (gravity_velocity (jump ((make_chicken 500 350 30)\<lparr>gravity_velocity := (0, -250)\<rparr>))) = 400"
  using jump_sets_velocity [of "make_chicken 500 350 30" "(0, -250)"]
  by (simp add: make_chicken_def)

subsection \<open>The spec's end-to-end example\<close>

text \<open>The spec's example, evaluated: in a 1000 by 700 field with gravity switched off, a chicken started at
  \<open>(500, 350)\<close> moving right at 180 passes \<open>x = 970\<close> without bouncing (at 972.5);
  it bounces when the unclamped \<open>x\<close> reaches \<open>width - radius = 985\<close>, where it is
  clamped to 985 and its horizontal velocity becomes \<open>-180\<close>.\<close>

theorem spec_example_bounce:
  "let c0 = (make_chicken 500 350 30)\<lparr>gravity := 0\<rparr>;
       (r1, c1) = chicken_update (21 / 8) (1000, 700) c0;
       (r2, c2) = chicken_update (1 / 10) (1000, 700) c1
   in r1 = (False, (972.5, 350)) \<and> alive c1
      \<and> r2 = (True, (985, 350)) \<and> fst (velocity c2) = -180 \<and> alive c2"
  by (simp add: make_chicken_def chicken_update_def wall_bounce_def Let_def)

end
