(* ===== verification/Obstacles.thy ===== *)
theory Obstacles
  imports Spike Chicken
begin

text \<open>
  The obstacle field, \<open>src/widgets/obstacles_manager.py\<close>, class \<open>SpikeGenerator\<close>:
  two columns of spikes, index 0 on the left wall and index 1 on the right wall. Python's
  global \<open>random.random()\<close> is an explicit generator state \<open>'g\<close> with a step function
  \<open>rnd :: 'g rng\<close> (Prelude), threaded through every operation that draws. The loop of
  \<open>_generate_spike_column\<close> is \<open>spike_column_loop\<close>, structural on the number of
  bands left. \<open>regenerate_spikes\<close> assigns \<open>self.spikes[i]\<close>, which raises
  \<open>IndexError\<close> out of range: its result is an option.
\<close>

record spike_generator =
  screen_width :: real
  screen_height :: real
  spikes :: "spike list list"
  gen_spike_width :: real
  wall_thickness :: real

text \<open>The loop \<open>for i in range(num_spikes)\<close> of \<open>_generate_spike_column\<close>, from band
  \<open>i\<close> with \<open>k\<close> bands left; \<open>spike_height = 35\<close>, each spike \<open>35 - 2\<close> high.\<close>

fun spike_column_loop ::
  "'g rng \<Rightarrow> real \<Rightarrow> real \<Rightarrow> bool \<Rightarrow> real \<Rightarrow> nat \<Rightarrow> nat \<Rightarrow> 'g \<Rightarrow> spike list \<times> 'g" where
  "spike_column_loop rnd wt x pr gap i 0 g = ([], g)"
| "spike_column_loop rnd wt x pr gap i (Suc k) g =
     (case rnd g of (d, g1) \<Rightarrow>
      let here = (if d > gap then [make_spike x (real i * 35) wt (35 - 2) pr] else [])
      in case spike_column_loop rnd wt x pr gap (Suc i) k g1 of
           (rest, g2) \<Rightarrow> (here @ rest, g2))"

text \<open>\<open>SpikeGenerator._generate_spike_column(x, pointing_right, gap_probability)\<close>;
  \<open>int(h // 35)\<close> is \<open>\<lfloor>h / 35\<rfloor>\<close>, and \<open>range\<close> of a negative count is empty.\<close>

definition generate_spike_column ::
  "'g rng \<Rightarrow> spike_generator \<Rightarrow> real \<Rightarrow> bool \<Rightarrow> real \<Rightarrow> 'g \<Rightarrow> spike list \<times> 'g" where
  "generate_spike_column rnd sg x pr gap g =
     spike_column_loop rnd (wall_thickness sg) x pr gap 0 (nat \<lfloor>screen_height sg / 35\<rfloor>) g"

text \<open>\<open>SpikeGenerator.generate_initial_spikes\<close>: clear, then the left column (drawn
  first) and the right column, both with the default gap probability 0.8.\<close>

definition generate_initial_spikes ::
  "'g rng \<Rightarrow> spike_generator \<Rightarrow> 'g \<Rightarrow> spike_generator \<times> 'g" where
  "generate_initial_spikes rnd sg g =
     (case generate_spike_column rnd sg 0 True 0.8 g of (left, g1) \<Rightarrow>
      case generate_spike_column rnd sg (screen_width sg - wall_thickness sg) False 0.8 g1 of
        (right, g2) \<Rightarrow> (sg\<lparr>spikes := [] @ [left] @ [right]\<rparr>, g2))"

text \<open>\<open>SpikeGenerator.__init__(screen_width, screen_height)\<close>.\<close>

definition make_spike_generator :: "'g rng \<Rightarrow> real \<Rightarrow> real \<Rightarrow> 'g \<Rightarrow> spike_generator \<times> 'g" where
  "make_spike_generator rnd w h g =
     generate_initial_spikes rnd
       \<lparr>screen_width = w, screen_height = h, spikes = [[], []],
        gen_spike_width = 40, wall_thickness = 40\<rparr> g"

text \<open>Line 53 of \<open>regenerate_spikes\<close>.\<close>

definition gap_probability :: "int \<Rightarrow> real" where
  "gap_probability difficulty_level = max 0.5 (0.8 - real_of_int difficulty_level * 0.05)"

text \<open>\<open>SpikeGenerator.regenerate_spikes(coords, difficulty_level)\<close>: a bounce right of
  the middle regenerates column 0 (the left wall), otherwise column 1. The column is
  generated before the item assignment, as Python evaluates the right side first.\<close>

definition regenerate_spikes ::
  "'g rng \<Rightarrow> vec \<Rightarrow> int \<Rightarrow> spike_generator \<Rightarrow> 'g \<Rightarrow> (spike_generator \<times> 'g) option" where
  "regenerate_spikes rnd coords difficulty_level sg g =
     (let gap = gap_probability difficulty_level; x = fst coords
      in if x > screen_width sg / 2 then
           (case generate_spike_column rnd sg 0 True gap g of (col, g') \<Rightarrow>
              map_option (\<lambda>sp. (sg\<lparr>spikes := sp\<rparr>, g')) (py_setitem (spikes sg) 0 col))
         else
           (case generate_spike_column rnd sg (screen_width sg - wall_thickness sg) False gap g of
              (col, g') \<Rightarrow>
                map_option (\<lambda>sp. (sg\<lparr>spikes := sp\<rparr>, g')) (py_setitem (spikes sg) 1 col)))"

text \<open>\<open>SpikeGenerator.check_collisions(chicken)\<close>: the inner and the outer loop, each
  returning \<open>True\<close> at the first hit.\<close>

fun any_spike_hit :: "spike list \<Rightarrow> rect \<Rightarrow> bool" where
  "any_spike_hit [] r = False"
| "any_spike_hit (s # ss) r = (if check_collision s r then True else any_spike_hit ss r)"

fun any_column_hit :: "spike list list \<Rightarrow> rect \<Rightarrow> bool" where
  "any_column_hit [] r = False"
| "any_column_hit (col # cols) r = (if any_spike_hit col r then True else any_column_hit cols r)"

definition check_collisions :: "spike_generator \<Rightarrow> chicken \<Rightarrow> bool" where
  "check_collisions sg c = any_column_hit (spikes sg) (get_rect c)"

text \<open>Replayed draws used by the examples below.\<close>

definition demo_draws :: "real list" where
  "demo_draws = [0.9, 0.1, 0.95, 0.3, 0.99, 0.2]"

subsection \<open>Specification of a column and the invariant of the field\<close>

text \<open>
  What a column is, given the draws: one spike per band whose draw exceeds the gap
  probability, at that band's height, in band order.
\<close>

definition column_spec :: "real \<Rightarrow> real \<Rightarrow> bool \<Rightarrow> real \<Rightarrow> nat \<Rightarrow> real list \<Rightarrow> spike list" where
  "column_spec wt x pr gap i ds =
     map (\<lambda>(j, d). make_spike x (real j * 35) wt 33 pr)
       (filter (\<lambda>(j, d). gap < d) (zip [i..<i + length ds] ds))"

definition column_wf :: "real \<Rightarrow> real \<Rightarrow> bool \<Rightarrow> real \<Rightarrow> spike list \<Rightarrow> bool" where
  "column_wf wt x pr h col \<longleftrightarrow>
     sorted_wrt (\<lambda>a b. spike_y a < spike_y b) col
     \<and> (\<forall>s \<in> set col. spike_x s = x \<and> pointing_right s = pr \<and> spike_width s = wt
          \<and> spike_height s = 33 \<and> (\<exists>j \<in> {..<nat \<lfloor>h / 35\<rfloor>}. spike_y s = real j * 35))"

definition spikes_wf :: "spike_generator \<Rightarrow> bool" where
  "spikes_wf sg \<longleftrightarrow>
     length (spikes sg) = 2
     \<and> column_wf (wall_thickness sg) 0 True (screen_height sg) (spikes sg ! 0)
     \<and> column_wf (wall_thickness sg) (screen_width sg - wall_thickness sg) False
         (screen_height sg) (spikes sg ! 1)"

declare column_wf_def [wf_simps] spikes_wf_def [wf_simps]

subsection \<open>The column loop\<close>

lemma spike_column_loop_spec:
  "spike_column_loop rnd wt x pr gap i k g
     = (column_spec wt x pr gap i (draws rnd g k), rng_after rnd g k)"
proof (induction k arbitrary: i g)
  case 0
  then show ?case by (simp add: column_spec_def)
next
  case (Suc k)
  obtain d g1 where r: "rnd g = (d, g1)" by fastforce
  have "[i..<i + Suc k] = i # [Suc i..<Suc i + k]"
    by (simp add: upt_rec)
  with Suc.IH [of "Suc i" g1] r show ?case
    by (simp add: column_spec_def make_spike_def)
qed

lemma column_spec_Nil [simp]: "column_spec wt x pr gap i [] = []"
  by (simp add: column_spec_def)

lemma column_spec_Cons:
  "column_spec wt x pr gap i (d # ds)
     = (if gap < d then [make_spike x (real i * 35) wt 33 pr] else [])
       @ column_spec wt x pr gap (Suc i) ds"
proof -
  have "[i..<i + length (d # ds)] = i # [Suc i..<Suc i + length ds]"
    by (simp add: upt_rec)
  then show ?thesis by (simp add: column_spec_def)
qed

lemma column_spec_set:
  "s \<in> set (column_spec wt x pr gap i ds) \<Longrightarrow>
     spike_x s = x \<and> pointing_right s = pr \<and> spike_width s = wt \<and> spike_height s = 33
     \<and> (\<exists>j. i \<le> j \<and> j < i + length ds \<and> spike_y s = real j * 35)"
proof (induction ds arbitrary: i)
  case Nil
  then show ?case by simp
next
  case (Cons d ds)
  show ?case
  proof (cases "s \<in> set (column_spec wt x pr gap (Suc i) ds)")
    case True
    from Cons.IH [OF True] show ?thesis
      by (metis Suc_leD add_Suc_shift add_Suc_right length_Cons less_Suc_eq_le not_less_eq_eq)
  next
    case False
    with Cons.prems have "s = make_spike x (real i * 35) wt 33 pr"
      by (auto simp: column_spec_Cons split: if_splits)
    then show ?thesis by (auto simp: make_spike_def)
  qed
qed

lemma column_spec_sorted:
  "sorted_wrt (\<lambda>a b. spike_y a < spike_y b) (column_spec wt x pr gap i ds)"
proof (induction ds arbitrary: i)
  case Nil
  then show ?case by simp
next
  case (Cons d ds)
  have "\<forall>s \<in> set (column_spec wt x pr gap (Suc i) ds). real i * 35 < spike_y s"
    using column_spec_set [of _ wt x pr gap "Suc i" ds] by fastforce
  with Cons.IH [of "Suc i"] show ?case
    by (simp add: column_spec_Cons sorted_wrt_append make_spike_def)
qed

lemma column_spec_length: "length (column_spec wt x pr gap i ds) \<le> length ds"
proof (induction ds arbitrary: i)
  case Nil
  then show ?case by simp
next
  case (Cons d ds)
  have "length (column_spec wt x pr gap (Suc i) ds) \<le> length ds" by (rule Cons.IH)
  then show ?case by (simp add: column_spec_Cons)
qed

lemma generate_spike_column_eq:
  "generate_spike_column rnd sg x pr gap g
     = (column_spec (wall_thickness sg) x pr gap 0 (draws rnd g (nat \<lfloor>screen_height sg / 35\<rfloor>)),
        rng_after rnd g (nat \<lfloor>screen_height sg / 35\<rfloor>))"
  by (simp add: generate_spike_column_def spike_column_loop_spec)

lemma generate_spike_column_wf:
  "column_wf (wall_thickness sg) x pr (screen_height sg) (fst (generate_spike_column rnd sg x pr gap g))"
  using column_spec_set [of _ "wall_thickness sg" x pr gap 0]
  by (fastforce simp: generate_spike_column_eq column_wf_def column_spec_sorted)

lemma bands_fit:
  fixes h :: real
  assumes "j < nat \<lfloor>h / 35\<rfloor>"
  shows "real j * 35 + 35 \<le> h"
proof -
  from assms have "real (Suc j) \<le> real (nat \<lfloor>h / 35\<rfloor>)" by linarith
  also from assms have "\<dots> = of_int \<lfloor>h / 35\<rfloor>" by simp
  also have "\<dots> \<le> h / 35" by (rule of_int_floor_le)
  finally show ?thesis by simp
qed

lemma regenerate_spikes_eq:
  assumes "length (spikes sg) = 2"
  shows "regenerate_spikes rnd coords d sg g =
    Some (if fst coords > screen_width sg / 2
          then (sg\<lparr>spikes := [fst (generate_spike_column rnd sg 0 True (gap_probability d) g),
                               spikes sg ! 1]\<rparr>,
                snd (generate_spike_column rnd sg 0 True (gap_probability d) g))
          else (sg\<lparr>spikes := [spikes sg ! 0,
                               fst (generate_spike_column rnd sg (screen_width sg - wall_thickness sg)
                                      False (gap_probability d) g)]\<rparr>,
                snd (generate_spike_column rnd sg (screen_width sg - wall_thickness sg)
                       False (gap_probability d) g)))"
proof -
  obtain a b where "spikes sg = [a, b]"
    using assms by (metis (no_types) length_0_conv length_Suc_conv numeral_2_eq_2)
  then show ?thesis
    by (simp add: regenerate_spikes_def Let_def split: prod.splits)
qed

subsection \<open>Properties of the obstacle field\<close>

text \<open>C33 The gap probability is 0.75 at level 1 and 0.5 at level 10; it never drops
  below 0.5, is at most 0.75 from level 1 on, reaches its floor from level 6 on, and
  never increases with the level.\<close>

theorem gap_probability_bounds:
  "gap_probability 1 = 0.75 \<and> gap_probability 10 = 0.5
   \<and> 0.5 \<le> gap_probability d
   \<and> (1 \<le> d \<longrightarrow> gap_probability d \<le> 0.75)
   \<and> (6 \<le> d \<longrightarrow> gap_probability d = 0.5)
   \<and> (d \<le> d' \<longrightarrow> gap_probability d' \<le> gap_probability d)"
  by (simp add: gap_probability_def max_def)

text \<open>C15 Generating a column refines its specification: the column holds, in band
  order, one spike per band whose draw of \<open>random.random()\<close> exceeds the gap
  probability, it draws exactly once per band, and it has at most one spike per band.\<close>

theorem generate_spike_column_refines:
  "generate_spike_column rnd sg x pr gap g
     = (column_spec (wall_thickness sg) x pr gap 0 (draws rnd g (nat \<lfloor>screen_height sg / 35\<rfloor>)),
        rng_after rnd g (nat \<lfloor>screen_height sg / 35\<rfloor>))
   \<and> length (fst (generate_spike_column rnd sg x pr gap g)) \<le> nat \<lfloor>screen_height sg / 35\<rfloor>"
proof -
  have "length (column_spec (wall_thickness sg) x pr gap 0 (draws rnd g (nat \<lfloor>screen_height sg / 35\<rfloor>)))
      \<le> length (draws rnd g (nat \<lfloor>screen_height sg / 35\<rfloor>))"
    by (rule column_spec_length)
  then show ?thesis by (simp add: generate_spike_column_eq)
qed

lemma make_spike_generator_wf: "spikes_wf (fst (make_spike_generator rnd w h g0))"
proof -
  let ?sg = "\<lparr>screen_width = w, screen_height = h, spikes = [[], []],
             gen_spike_width = 40, wall_thickness = 40\<rparr>"
  obtain l g1 where l: "generate_spike_column rnd ?sg 0 True 0.8 g0 = (l, g1)"
    by fastforce
  obtain r g2 where r: "generate_spike_column rnd ?sg (w - 40) False 0.8 g1 = (r, g2)"
    by fastforce
  have "column_wf 40 0 True h l"
    using generate_spike_column_wf [of ?sg 0 True rnd "0.8" g0] l by simp
  moreover have "column_wf 40 (w - 40) False h r"
    using generate_spike_column_wf [of ?sg "w - 40" False rnd "0.8" g1] r by simp
  ultimately show ?thesis
    using l r by (simp add: make_spike_generator_def generate_initial_spikes_def spikes_wf_def)
qed

lemma regenerate_spikes_wf:
  assumes "spikes_wf sg"
  shows "\<exists>sg' g'. regenerate_spikes rnd coords d sg g = Some (sg', g') \<and> spikes_wf sg'"
proof -
  from assms have "length (spikes sg) = 2" by (simp add: spikes_wf_def)
  with assms show ?thesis
    by (simp add: regenerate_spikes_eq spikes_wf_def generate_spike_column_wf)
qed

lemma regenerate_spikes_some_wf:
  "spikes_wf sg \<Longrightarrow> regenerate_spikes rnd coords d sg g = Some (sg', g') \<Longrightarrow> spikes_wf sg'"
  using regenerate_spikes_wf [of sg rnd coords d g] by auto

text \<open>C13 A new spike generator is well formed (two columns, each sorted by height, on
  its own wall, pointing inwards, one spike per band at most), and regeneration of a
  well-formed field never raises \<open>IndexError\<close> and keeps it well formed.\<close>

theorem spikes_wf_preserved:
  "spikes_wf (fst (make_spike_generator rnd w h g0))
   \<and> (spikes_wf sg \<longrightarrow>
        (\<exists>sg' g'. regenerate_spikes rnd coords d sg g = Some (sg', g') \<and> spikes_wf sg'))"
  using make_spike_generator_wf [of rnd w h g0] regenerate_spikes_wf [of sg rnd coords d g]
  by simp

text \<open>C11 Regeneration after a bounce right of the screen's middle replaces the left column
  (index 0) and keeps the right one; otherwise it replaces the right column (index 1) and
  keeps the left one. The new column uses the gap probability of the difficulty level.\<close>

theorem regenerate_spikes_column:
  assumes "length (spikes sg) = 2"
    and "regenerate_spikes rnd coords d sg g = Some (sg', g')"
  shows "(fst coords > screen_width sg / 2 \<longrightarrow>
            spikes sg' ! 0 = fst (generate_spike_column rnd sg 0 True (gap_probability d) g)
            \<and> spikes sg' ! 1 = spikes sg ! 1)
    \<and> (fst coords \<le> screen_width sg / 2 \<longrightarrow>
            spikes sg' ! 0 = spikes sg ! 0
            \<and> spikes sg' ! 1 = fst (generate_spike_column rnd sg
                (screen_width sg - wall_thickness sg) False (gap_probability d) g))
    \<and> length (spikes sg') = 2 \<and> screen_width sg' = screen_width sg
    \<and> screen_height sg' = screen_height sg \<and> wall_thickness sg' = wall_thickness sg"
  using assms by (auto simp: regenerate_spikes_eq split: if_splits)

lemma any_spike_hit_iff: "any_spike_hit col r \<longleftrightarrow> (\<exists>s \<in> set col. check_collision s r)"
  by (induction col) auto

lemma any_column_hit_iff:
  "any_column_hit cols r \<longleftrightarrow> (\<exists>col \<in> set cols. \<exists>s \<in> set col. check_collision s r)"
  by (induction cols) (auto simp: any_spike_hit_iff)

text \<open>C14 The nested early-return loop of \<open>check_collisions\<close> answers whether some spike
  of some column collides with the chicken's rectangle.\<close>

theorem check_collisions_iff:
  "check_collisions sg c \<longleftrightarrow>
     (\<exists>col \<in> set (spikes sg). \<exists>s \<in> set col. check_collision s (get_rect c))"
  by (simp add: check_collisions_def any_column_hit_iff)

text \<open>C30 In a well-formed field, a chicken whose rectangle stays out of both walls'
  spike zones (at least \<open>wall_thickness\<close> from each side) collides with no spike, at any
  height.\<close>

theorem corridor_safe:
  assumes "spikes_wf sg"
    and "wall_thickness sg \<le> fst (get_rect c)"
    and "fst (get_rect c) + fst (snd (snd (get_rect c))) \<le> screen_width sg - wall_thickness sg"
  shows "\<not> check_collisions sg c"
proof -
  have "\<not> check_collision s (get_rect c)" if "col \<in> set (spikes sg)" "s \<in> set col" for col s
  proof -
    from assms(1) that(1) have "col = spikes sg ! 0 \<or> col = spikes sg ! 1"
      by (auto simp: spikes_wf_def in_set_conv_nth less_2_cases_iff)
    with assms(1) that(2) have "(spike_x s = 0 \<or> spike_x s = screen_width sg - wall_thickness sg)
        \<and> spike_width s = wall_thickness sg"
      by (auto simp: wf_simps)
    with assms(2,3) show ?thesis
      by (cases "get_rect c") (auto simp: check_collision_def get_collision_rect_def)
  qed
  then show ?thesis by (auto simp: check_collisions_def any_column_hit_iff)
qed

subsection \<open>Witnesses\<close>

text \<open>A 200 by 105 field (three bands per column) generated from the replayed draws
  0.9, 0.1, 0.95 (left column: spikes in bands 0 and 2) and 0.3, 0.99, 0.2 (right
  column: a spike in band 1).\<close>

lemma demo_spikes:
  "spikes (fst (make_spike_generator list_rng 200 105 demo_draws))
   = [[make_spike 0 0 40 33 True, make_spike 0 70 40 33 True], [make_spike 160 35 40 33 False]]"
  by (simp add: demo_draws_def make_spike_generator_def generate_initial_spikes_def
      generate_spike_column_def numeral_3_eq_3 make_spike_def)

lemma demo_fields:
  "screen_width (fst (make_spike_generator list_rng 200 105 ds)) = 200
   \<and> screen_height (fst (make_spike_generator list_rng 200 105 ds)) = 105
   \<and> wall_thickness (fst (make_spike_generator list_rng 200 105 ds)) = 40"
  by (simp add: make_spike_generator_def generate_initial_spikes_def split: prod.splits)

lemma demo_wf: "spikes_wf (fst (make_spike_generator list_rng 200 105 demo_draws))"
  by (simp add: spikes_wf_def demo_spikes demo_fields column_wf_def make_spike_def lessThan_Suc
      numeral_3_eq_3)

theorem gap_probability_bounds_witness:
  "gap_probability 3 \<le> 0.75 \<and> gap_probability 7 \<le> gap_probability 3"
  using gap_probability_bounds [of 3 7] by simp

theorem spikes_wf_preserved_witness:
  "\<exists>sg' g'. regenerate_spikes list_rng (185, 50) 1
      (fst (make_spike_generator list_rng 200 105 demo_draws)) [1, 0, 0]
      = Some (sg', g') \<and> spikes_wf sg'"
  using spikes_wf_preserved [of list_rng 200 105 demo_draws
      "fst (make_spike_generator list_rng 200 105 demo_draws)"
      "(185, 50)" 1 "[1, 0, 0]"]
  by simp

theorem regenerate_spikes_column_witness:
  "spikes (fst (the (regenerate_spikes list_rng (185, 50) 1
      (fst (make_spike_generator list_rng 200 105 demo_draws))
      [1, 0, 0])))
   = [[make_spike 0 0 40 33 True], [make_spike 160 35 40 33 False]]"
proof -
  let ?sg = "fst (make_spike_generator list_rng 200 105 demo_draws)"
  have len: "length (spikes ?sg) = 2" by (simp add: demo_spikes)
  have "\<exists>sg' g'. regenerate_spikes list_rng (185, 50) 1 ?sg [1, 0, 0] = Some (sg', g')"
    by (simp add: regenerate_spikes_eq [OF len])
  then obtain sg' g' where r: "regenerate_spikes list_rng (185, 50) 1 ?sg [1, 0, 0] = Some (sg', g')"
    by blast
  have col: "fst (generate_spike_column list_rng ?sg 0 True (gap_probability 1) [1, 0, 0])
      = [make_spike 0 0 40 33 True]"
    by (simp add: generate_spike_column_def demo_fields gap_probability_def numeral_3_eq_3
        make_spike_def)
  from regenerate_spikes_column [OF len r] col
  have "spikes sg' ! 0 = [make_spike 0 0 40 33 True]" "spikes sg' ! 1 = [make_spike 160 35 40 33 False]"
    "length (spikes sg') = 2"
    by (simp_all add: demo_spikes demo_fields)
  then have "spikes sg' = [[make_spike 0 0 40 33 True], [make_spike 160 35 40 33 False]]"
    by (simp add: list_eq_iff_nth_eq less_2_cases_iff)
  with r show ?thesis by simp
qed

theorem check_collisions_iff_witness:
  "check_collisions (fst (make_spike_generator list_rng 200 105 demo_draws))
     (make_chicken 15 20 30)"
  using check_collisions_iff [of "fst (make_spike_generator list_rng 200 105 demo_draws)"
      "make_chicken 15 20 30"]
  by (simp add: demo_spikes check_collision_def get_collision_rect_def get_rect_def
      make_chicken_def make_spike_def)

theorem corridor_safe_witness:
  "\<not> check_collisions (fst (make_spike_generator list_rng 200 105 demo_draws))
     (make_chicken 100 50 30)"
  using corridor_safe [OF demo_wf, of "make_chicken 100 50 30"]
  by (simp add: demo_fields get_rect_def make_chicken_def)

end
