(* ===== verification/PyStr.thy ===== *)
theory PyStr
  imports Prelude
begin

text \<open>
  Python's \<open>str\<close> on integers, the conversion \<open>update_score_display\<close> applies to the
  score (\<open>src/widgets/game_manager.py\<close>, line 125) and the game-over text formats
  (line 385): an optional minus sign and the decimal digits, most significant first, with
  no leading zero. The digit loop \<open>nat_str\<close> recurses on \<open>n div 10\<close>; its termination
  is proved with a measure. \<open>parse_int\<close> is a reader (Python's \<open>int(s)\<close> on the
  strings \<open>str\<close> produces) that the claims about the score label and the game-over text
  use to say what the display shows: \<open>parse_int_py_str_int\<close> is the round trip.
\<close>

definition digit_char :: "nat \<Rightarrow> char" where
  "digit_char d = ''0123456789'' ! d"

function nat_str :: "nat \<Rightarrow> string" where
  "nat_str n = (if n < 10 then [digit_char n] else nat_str (n div 10) @ [digit_char (n mod 10)])"
  by pat_completeness auto
termination by (relation "measure id") auto

declare nat_str.simps [simp del]

definition py_str_int :: "int \<Rightarrow> string" where
  "py_str_int i = (if i < 0 then CHR ''-'' # nat_str (nat (- i)) else nat_str (nat i))"

definition char_digit :: "char \<Rightarrow> nat option" where
  "char_digit c = (let k = of_char c :: nat in if 48 \<le> k \<and> k < 58 then Some (k - 48) else None)"

fun parse_digits :: "nat \<Rightarrow> string \<Rightarrow> nat option" where
  "parse_digits acc [] = Some acc"
| "parse_digits acc (c # cs) =
     (case char_digit c of None \<Rightarrow> None | Some d \<Rightarrow> parse_digits (10 * acc + d) cs)"

definition parse_int :: "string \<Rightarrow> int option" where
  "parse_int s =
     (case s of
        [] \<Rightarrow> None
      | c # cs \<Rightarrow>
          if c = CHR ''-'' then (if cs = [] then None else map_option (\<lambda>n. - int n) (parse_digits 0 cs))
          else map_option int (parse_digits 0 s))"

subsection \<open>Lemmas\<close>

lemma char_digit_digit_char [simp]: "d < 10 \<Longrightarrow> char_digit (digit_char d) = Some d"
  by (auto simp: char_digit_def digit_char_def Let_def less_Suc_eq numeral_eq_Suc)

lemma digit_char_neq_minus: "d < 10 \<Longrightarrow> digit_char d \<noteq> CHR ''-''"
  using char_digit_digit_char [of d] by (auto simp: char_digit_def)

lemma parse_digits_append:
  "parse_digits acc (xs @ ys) = Option.bind (parse_digits acc xs) (\<lambda>a. parse_digits a ys)"
  by (induction acc xs rule: parse_digits.induct) (auto split: option.split)

lemma parse_digits_nat_str: "parse_digits acc (nat_str n) = Some (acc * 10 ^ length (nat_str n) + n)"
proof (induction n arbitrary: acc rule: nat_str.induct)
  case (1 n)
  show ?case
  proof (cases "n < 10")
    case True
    then show ?thesis by (simp add: nat_str.simps [of n])
  next
    case False
    then show ?thesis using 1 [OF False]
      by (simp add: nat_str.simps [of n] parse_digits_append algebra_simps)
  qed
qed

lemma parse_digits_0_nat_str: "parse_digits 0 (nat_str n) = Some n"
  using parse_digits_nat_str [of 0 n] by simp

lemma nat_str_ne: "nat_str n \<noteq> []"
  by (simp add: nat_str.simps [of n])

lemma nat_str_hd: "hd (nat_str n) \<noteq> CHR ''-''"
proof (induction n rule: nat_str.induct)
  case (1 n)
  then show ?case
    by (cases "n < 10") (simp_all add: nat_str.simps [of n] digit_char_neq_minus hd_append nat_str_ne)
qed

lemma parse_int_nat_str: "parse_int (nat_str n) = Some (int n)"
proof -
  obtain c cs where ns: "nat_str n = c # cs"
    using nat_str_ne by (cases "nat_str n") auto
  with nat_str_hd [of n] have "c \<noteq> CHR ''-''" by simp
  with ns parse_digits_0_nat_str [of n] show ?thesis by (simp add: parse_int_def)
qed

lemma parse_int_py_str_int: "parse_int (py_str_int i) = Some i"
proof (cases "i < 0")
  case True
  then show ?thesis
    using nat_str_ne [of "nat (- i)"] parse_digits_0_nat_str [of "nat (- i)"]
    by (simp add: py_str_int_def parse_int_def)
next
  case False
  then show ?thesis using parse_int_nat_str [of "nat i"] by (simp add: py_str_int_def)
qed

lemma nat_str_length_le: "0 < k \<Longrightarrow> length (nat_str n) \<le> k \<longleftrightarrow> n < 10 ^ k"
proof (induction n arbitrary: k rule: nat_str.induct)
  case (1 n)
  show ?case
  proof (cases "n < 10")
    case True
    with 1(2) show ?thesis
      using power_increasing [of 1 k "10::nat"] by (simp add: nat_str.simps [of n])
  next
    case False
    then obtain k' where k: "k = Suc k'" using 1(2) by (cases k) auto
    show ?thesis
    proof (cases "k' = 0")
      case True
      with False k show ?thesis using nat_str_ne [of "n div 10"] by (simp add: nat_str.simps [of n])
    next
      case kp: False
      with 1(1) [OF False, of k'] False k show ?thesis
        by (simp add: nat_str.simps [of n]) linarith
    qed
  qed
qed

subsection \<open>Length of the score text\<close>

text \<open>The text of a non-negative score has at most \<open>k\<close> characters exactly when the
  score is below \<open>10^k\<close>.\<close>

theorem py_str_int_length:
  assumes "0 \<le> i" and "0 < k"
  shows "length (py_str_int i) \<le> k \<longleftrightarrow> i < 10 ^ k"
proof -
  have "nat i < 10 ^ k \<longleftrightarrow> i < 10 ^ k"
    using assms(1) by (metis nat_less_iff of_nat_numeral of_nat_power)
  with assms nat_str_length_le [of k "nat i"] show ?thesis by (simp add: py_str_int_def)
qed

subsection \<open>Witnesses\<close>

theorem py_str_int_length_witness: "length (py_str_int 999) \<le> 3 \<and> \<not> length (py_str_int 1000) \<le> 3"
  using py_str_int_length [of 999 3] py_str_int_length [of 1000 3] by simp

end
