(* ===== verification/Render.thy ===== *)
theory Render
  imports Score Obstacles PyStr
begin

text \<open>
  The drawing half of \<open>src/widgets/game_manager.py\<close>: \<open>draw_game\<close> and the methods it
  calls, and the contents of the two overlays. A Kivy canvas is the list of graphics
  instructions drawn into it, in order (\<open>instr\<close>); a \<open>Label\<close> is its text, position and
  size; an overlay (\<open>FloatLayout\<close>) is its size, canvas and labels. The children of the
  game widget are a list of \<open>widget\<close>s, topmost first, as Kivy's \<open>children\<close> is:
  \<open>add_widget\<close> inserts at index 0 and the widget added last is drawn on top. The clock
  reading of \<open>Clock.get_time()\<close> is a parameter.
\<close>

subsection \<open>Graphics instructions, labels, overlays and widgets\<close>

type_synonym rgba = "real \<times> real \<times> real \<times> real"

text \<open>\<open>kivy.graphics\<close>: \<open>Color(r, g, b)\<close> has alpha 1.\<close>

datatype instr =
    Color rgba
  | Rectangle vec vec  \<comment> \<open>position, size\<close>
  | Ellipse vec vec    \<comment> \<open>position, size\<close>
  | Triangle "real list"
  | Line "real list" real  \<comment> \<open>\<open>Line(points=..., width=...)\<close>\<close>
  | LineRect rect real     \<comment> \<open>\<open>Line(rectangle=..., width=...)\<close>\<close>

record label =
  label_text :: string
  label_pos :: vec
  label_size :: vec

record overlay =
  overlay_size :: vec
  overlay_canvas :: "instr list"
  overlay_labels :: "label list"

datatype widget = ScoreLabelW | PauseLayoutW | GameOverLayoutW

text \<open>Kivy's \<open>Widget.add_widget(w)\<close> inserts \<open>w\<close> at the front of \<open>children\<close>; it raises
  only for a widget that already has a parent, which no call of the program passes (each
  adds a freshly built layout, or the label right after removing it). \<open>remove_widget\<close>
  ignores a widget that is not a child.\<close>

definition add_widget :: "widget \<Rightarrow> widget list \<Rightarrow> widget list" where
  "add_widget w cs = w # cs"

definition remove_widget :: "widget \<Rightarrow> widget list \<Rightarrow> widget list" where
  "remove_widget w cs = (if w \<in> set cs then remove1 w cs else cs)"

subsection \<open>The drawing methods\<close>

text \<open>\<open>GameManager.draw_walls\<close>.\<close>

definition draw_walls :: "real \<Rightarrow> real \<Rightarrow> instr list" where
  "draw_walls w h =
     [Color (0.15, 0.15, 0.25, 0.8), Rectangle (0, 0) (5, h), Rectangle (w - 5, 0) (5, h)]"

text \<open>\<open>GameManager.draw_chicken\<close>: body, beak and eye. The beak faces right when the
  horizontal velocity is positive and left otherwise.\<close>

definition chicken_direction :: "chicken \<Rightarrow> real" where
  "chicken_direction c = (if fst (velocity c) > 0 then 1 else -1)"

definition draw_chicken :: "chicken option \<Rightarrow> instr list" where
  "draw_chicken co =
     (case co of None \<Rightarrow> []
      | Some c \<Rightarrow>
          (let x = fst (pos c); y = snd (pos c); r = real_of_int (radius c);
               sz = real_of_int (chicken_size c);
               beak_size = 8;
               direction = chicken_direction c;
               beak_x = x + r * direction * 0.7;
               beak_y = y;
               points = (if direction > 0
                         then [beak_x, beak_y - 3, beak_x, beak_y + 3, beak_x + beak_size, beak_y]
                         else [beak_x, beak_y - 3, beak_x, beak_y + 3, beak_x - beak_size, beak_y]);
               eye_size = 3; eye_offset = 4
           in [Color (1, 0.9, 0.2, 1), Ellipse (x - r, y - r) (sz, sz),
               Color (1, 0.5, 0, 1), Triangle points,
               Color (0, 0, 0, 1), Ellipse (x - eye_offset, y + 2) (eye_size, eye_size)]))"

text \<open>\<open>GameManager.draw_center_orb\<close> at clock reading \<open>t\<close>: three concentric discs whose
  size grows with the score, their alpha pulsing with \<open>|sin(2t)|\<close>.\<close>

definition orb_pulse :: "real \<Rightarrow> real" where
  "orb_pulse t = \<bar>sin (t * 2)\<bar> * 0.3 + 0.7"

definition draw_center_orb :: "real \<Rightarrow> real \<Rightarrow> real \<Rightarrow> score_manager \<Rightarrow> instr list" where
  "draw_center_orb t w h sm =
     (let pulse = orb_pulse t;
          orb_size = 500 + real_of_int (current_score sm * 2);
          inner_size = orb_size * 0.6;
          core_size = orb_size * 0.3
      in [Color (0.2, 0.3, 0.5, 0.4 * pulse),
          Ellipse (w / 2 - orb_size / 2, h / 2 - orb_size / 2) (orb_size, orb_size),
          Color (0.3, 0.4, 0.7, 0.6 * pulse),
          Ellipse (w / 2 - inner_size / 2, h / 2 - inner_size / 2) (inner_size, inner_size),
          Color (0.5, 0.6, 0.9, 0.8 * pulse),
          Ellipse (w / 2 - core_size / 2, h / 2 - core_size / 2) (core_size, core_size)])"

text \<open>\<open>GameManager.draw_spikes\<close>: each spike is a filled triangle and its closed outline
  (the point list with its first point appended).\<close>

definition draw_spike :: "spike \<Rightarrow> instr list" where
  "draw_spike sp =
     (let points = get_triangle_points sp
      in [Triangle points, Color (0.15, 0.15, 0.2, 1),
          Line (points @ [points ! 0, points ! 1]) 1.2, Color (0.2, 0.2, 0.3, 1)])"

definition draw_spikes :: "spike_generator option \<Rightarrow> instr list" where
  "draw_spikes sgo =
     (case sgo of None \<Rightarrow> []
      | Some sg \<Rightarrow> Color (0.2, 0.2, 0.3, 1) # concat (map draw_spike (concat (spikes sg))))"

text \<open>Lines 204--207 of \<open>GameManager.draw_game\<close>: the score label is removed and
  added again, so that it is the topmost child.\<close>

definition raise_score_label :: "widget list \<Rightarrow> widget list" where
  "raise_score_label cs =
     add_widget ScoreLabelW (if ScoreLabelW \<in> set cs then remove_widget ScoreLabelW cs else cs)"

text \<open>\<open>GameManager.draw_game\<close>: the canvas it paints and the children it leaves. The
  widget's canvas always exists, so the early return never fires.\<close>

definition draw_game ::
  "real \<Rightarrow> real \<Rightarrow> real \<Rightarrow> chicken option \<Rightarrow> spike_generator option \<Rightarrow> score_manager
   \<Rightarrow> widget list \<Rightarrow> instr list \<times> widget list" where
  "draw_game t w h co sgo sm cs =
     ([Color (0.05, 0.05, 0.15, 1), Rectangle (0, 0) (w, h)]
      @ draw_center_orb t w h sm
      @ draw_walls w h
      @ draw_spikes sgo
      @ (case co of Some c \<Rightarrow> if alive c then draw_chicken co else [] | None \<Rightarrow> []),
      raise_score_label cs)"

subsection \<open>The overlays\<close>

definition nl :: char where
  "nl = CHR 0x0A"

text \<open>The text of the game-over label, \<open>f"GAME OVER\nScore: {...}\nBest: {...}\n\nTap to
  restart or press R"\<close>.\<close>

definition game_over_text :: "int \<Rightarrow> int \<Rightarrow> string" where
  "game_over_text cur best =
     ''GAME OVER'' @ [nl] @ ''Score: '' @ py_str_int cur @ [nl] @ ''Best: '' @ py_str_int best
     @ [nl, nl] @ ''Tap to restart or press R''"

text \<open>Lines 376--395 of \<open>GameManager.show_game_over\<close>: the layout it builds.\<close>

definition game_over_overlay :: "real \<Rightarrow> real \<Rightarrow> score_manager \<Rightarrow> overlay" where
  "game_over_overlay w h sm =
     \<lparr>overlay_size = (w, h),
      overlay_canvas = [Color (0.9, 0.2, 0.2, 0.7), Rectangle (0, 0) (w, h)],
      overlay_labels =
        [\<lparr>label_text = game_over_text (current_score sm) (high_score sm),
          label_pos = (w / 2 - 200, h / 2 - 100), label_size = (400, 200)\<rparr>]\<rparr>"

text \<open>Lines 319--367 of \<open>GameManager.show_pause_menu\<close>: the layout it would build (its
  guard always returns first).\<close>

definition pause_overlay :: "real \<Rightarrow> real \<Rightarrow> overlay" where
  "pause_overlay w h =
     (let box_width = 400; box_height = 200;
          box_x = w / 2 - box_width / 2; box_y = h / 2 - box_height / 2
      in \<lparr>overlay_size = (w, h),
          overlay_canvas =
            [Color (0, 0, 0, 0.7), Rectangle (0, 0) (w, h),
             Color (0.15, 0.2, 0.3, 0.95), Rectangle (box_x, box_y) (box_width, box_height),
             Color (1, 1, 1, 1), LineRect (box_x, box_y, box_width, box_height) 2],
          overlay_labels =
            [\<lparr>label_text = ''PAUSA'', label_pos = (w / 2 - 150, h / 2 + 60), label_size = (300, 50)\<rparr>,
             \<lparr>label_text = ''Pulsa [P] o [ESC] para continuar'',
              label_pos = (w / 2 - 150, h / 2 + 10), label_size = (300, 40)\<rparr>,
             \<lparr>label_text = ''Toca la pantalla para seguir o R para reiniciar'',
              label_pos = (w / 2 - 200, h / 2 - 30), label_size = (400, 30)\<rparr>]\<rparr>)"

subsection \<open>Reading the display back\<close>

text \<open>The lines of a text, split at \<open>sep\<close> as Python's \<open>str.split(sep)\<close> does.\<close>

fun split_on :: "char \<Rightarrow> string \<Rightarrow> string list" where
  "split_on sep [] = [[]]"
| "split_on sep (x # xs) =
     (if x = sep then [] # split_on sep xs
      else (case split_on sep xs of [] \<Rightarrow> [[x]] | l # ls \<Rightarrow> (x # l) # ls))"

text \<open>What a reader of the game-over label learns: the score and the best score.\<close>

definition read_game_over_text :: "string \<Rightarrow> (int \<times> int) option" where
  "read_game_over_text s =
     (case split_on nl s of
        [t, l1, l2, e, l4] \<Rightarrow>
          if t = ''GAME OVER'' \<and> take 7 l1 = ''Score: '' \<and> take 6 l2 = ''Best: '' \<and> e = []
             \<and> l4 = ''Tap to restart or press R''
          then (case (parse_int (drop 7 l1), parse_int (drop 6 l2)) of
                  (Some a, Some b) \<Rightarrow> Some (a, b)
                | _ \<Rightarrow> None)
          else None
      | _ \<Rightarrow> None)"

text \<open>The filled triangles and the polylines of a canvas, in drawing order.\<close>

fun triangles :: "instr list \<Rightarrow> real list list" where
  "triangles [] = []"
| "triangles (Triangle p # is) = p # triangles is"
| "triangles (_ # is) = triangles is"

fun polylines :: "instr list \<Rightarrow> real list list" where
  "polylines [] = []"
| "polylines (Line p _ # is) = p # polylines is"
| "polylines (_ # is) = polylines is"

definition ellipse_centres :: "instr list \<Rightarrow> vec list" where
  "ellipse_centres is = [(fst p + fst sz / 2, snd p + snd sz / 2). Ellipse p sz \<leftarrow> is]"

definition colour_alphas :: "instr list \<Rightarrow> real list" where
  "colour_alphas is = [snd (snd (snd c)). Color c \<leftarrow> is]"

subsection \<open>Lemmas\<close>

lemma split_on_no_sep: "sep \<notin> set xs \<Longrightarrow> split_on sep xs = [xs]"
  by (induction xs) auto

lemma split_on_append_sep:
  "sep \<notin> set xs \<Longrightarrow> split_on sep (xs @ sep # ys) = xs # split_on sep ys"
  by (induction xs) auto

lemma nat_str_digits: "set (nat_str n) \<subseteq> set ''0123456789''"
proof (induction n rule: nat_str.induct)
  case (1 n)
  have d: "digit_char k \<in> set ''0123456789''" if "k < 10" for k
    using that nth_mem [of k "''0123456789''"] by (simp add: digit_char_def)
  show ?case
    using 1 d [of n] d [of "n mod 10"] by (cases "n < 10") (auto simp: nat_str.simps [of n])
qed

lemma nl_notin_py_str_int: "nl \<notin> set (py_str_int i)"
  using nat_str_digits [of "nat (- i)"] nat_str_digits [of "nat i"]
  by (auto simp: py_str_int_def nl_def)

lemma triangles_append [simp]: "triangles (xs @ ys) = triangles xs @ triangles ys"
  by (induction xs rule: triangles.induct) simp_all

lemma polylines_append [simp]: "polylines (xs @ ys) = polylines xs @ polylines ys"
  by (induction xs rule: polylines.induct) simp_all

lemma get_triangle_points_length: "length (get_triangle_points sp) = 6"
  by (simp add: get_triangle_points_def)

lemma draw_spike_shapes:
  "triangles (draw_spike sp) = [get_triangle_points sp]"
  "polylines (draw_spike sp) = [get_triangle_points sp @ take 2 (get_triangle_points sp)]"
  by (simp_all add: draw_spike_def Let_def get_triangle_points_def)

lemma draw_spikes_map:
  "triangles (concat (map draw_spike sps)) = map get_triangle_points sps
   \<and> polylines (concat (map draw_spike sps))
       = map (\<lambda>sp. get_triangle_points sp @ take 2 (get_triangle_points sp)) sps"
  by (induction sps) (simp_all add: draw_spike_shapes)

lemma read_game_over_text_eq: "read_game_over_text (game_over_text cur best) = Some (cur, best)"
proof -
  have "split_on nl (game_over_text cur best)
        = [''GAME OVER'', ''Score: '' @ py_str_int cur, ''Best: '' @ py_str_int best, [],
           ''Tap to restart or press R'']"
    using nl_notin_py_str_int [of cur] nl_notin_py_str_int [of best]
    by (simp add: game_over_text_def split_on_append_sep split_on_no_sep nl_def)
  then show ?thesis
    by (simp add: read_game_over_text_def parse_int_py_str_int)
qed

lemma orb_pulse_bounds: "7 / 10 \<le> orb_pulse t \<and> orb_pulse t \<le> 1"
  using abs_sin_le_one [of "t * 2"] abs_ge_zero [of "sin (t * 2)"]
  unfolding orb_pulse_def by linarith

lemma fixed_shapes_no_triangles:
  "triangles (draw_center_orb t w h sm) = []" "triangles (draw_walls w h) = []"
  "triangles (draw_chicken (Some c)) = [[fst (pos c) + real_of_int (radius c) * chicken_direction c * 0.7,
      snd (pos c) - 3, fst (pos c) + real_of_int (radius c) * chicken_direction c * 0.7, snd (pos c) + 3,
      fst (pos c) + real_of_int (radius c) * chicken_direction c * 0.7 + chicken_direction c * 8, snd (pos c)]]"
  by (simp_all add: draw_center_orb_def draw_walls_def draw_chicken_def Let_def chicken_direction_def)

subsection \<open>Properties\<close>

text \<open>C27 The drawn spikes are the field's spikes: one filled triangle per spike, with the
  spike's own triangle points, column by column in list order, and each outline is the
  closed polyline of its triangle.\<close>

theorem spike_drawing:
  "triangles (draw_spikes (Some sg)) = map get_triangle_points (concat (spikes sg))
   \<and> polylines (draw_spikes (Some sg)) = map (\<lambda>p. p @ take 2 p) (triangles (draw_spikes (Some sg)))
   \<and> draw_spikes None = []"
  using draw_spikes_map [of "concat (spikes sg)"] by (simp add: draw_spikes_def comp_def)

text \<open>C28 A frame shows exactly one triangle per spike of the field, plus the beak when the
  chicken exists and is alive: a dead chicken is not drawn.\<close>

theorem draw_game_triangles:
  "length (triangles (fst (draw_game t w h co sgo sm cs)))
     = (case sgo of None \<Rightarrow> 0 | Some sg \<Rightarrow> length (concat (spikes sg)))
       + (case co of None \<Rightarrow> 0 | Some c \<Rightarrow> if alive c then 1 else 0)"
  by (simp add: draw_game_def fixed_shapes_no_triangles draw_spikes_def draw_spikes_map
      split: option.split)

text \<open>C26 The game-over text round-trips: a reader of the label recovers the score and the
  best score, and different scores give different texts.\<close>

theorem game_over_text_roundtrip:
  "read_game_over_text (game_over_text cur best) = Some (cur, best)
   \<and> (game_over_text cur best = game_over_text cur' best' \<longleftrightarrow> cur = cur' \<and> best = best')"
  using read_game_over_text_eq [of cur best] read_game_over_text_eq [of cur' best']
  by (metis option.inject prod.inject)

text \<open>C35 The beak of a chicken of non-negative radius points the way it moves: its tip is
  right of the body's centre exactly when the horizontal velocity is positive.\<close>

theorem beak_faces_motion:
  assumes "0 \<le> radius c"
  shows "\<exists>pts. Triangle pts \<in> set (draw_chicken (Some c))
           \<and> (pts ! 4 > fst (pos c) \<longleftrightarrow> fst (velocity c) > 0)"
  using assms
  by (auto simp: draw_chicken_def chicken_direction_def Let_def)

text \<open>The centre orb is three discs centred on the widget's centre, whatever the clock
  and the score, and every alpha of its colours stays within \<open>[0.28, 0.8]\<close>.\<close>

theorem center_orb_concentric:
  "ellipse_centres (draw_center_orb t w h sm) = replicate 3 (w / 2, h / 2)
   \<and> (\<forall>a \<in> set (colour_alphas (draw_center_orb t w h sm)). 28 / 100 \<le> a \<and> a \<le> 8 / 10)"
  using orb_pulse_bounds [of t]
  by (auto simp: draw_center_orb_def Let_def ellipse_centres_def colour_alphas_def numeral_eq_Suc)

text \<open>Re-adding the score label in \<open>draw_game\<close> puts it on top of a duplicate-free
  child list, keeps the list duplicate-free and keeps the same children.\<close>

theorem raise_score_label_top:
  assumes "distinct cs"
  shows "hd (raise_score_label cs) = ScoreLabelW \<and> distinct (raise_score_label cs)
         \<and> set (raise_score_label cs) = insert ScoreLabelW (set cs)"
  using assms by (auto simp: raise_score_label_def add_widget_def remove_widget_def)

subsection \<open>Witnesses\<close>

theorem beak_faces_motion_witness:
  "\<exists>pts. Triangle pts \<in> set (draw_chicken (Some (make_chicken 100 50 30))) \<and> pts ! 4 > 100"
  using beak_faces_motion [of "make_chicken 100 50 30"] by (simp add: make_chicken_def)

theorem center_orb_concentric_witness:
  "\<forall>a \<in> set (colour_alphas (draw_center_orb 0 200 100 score_manager_init)). a \<le> 8 / 10"
  using center_orb_concentric [of 0 200 100 score_manager_init] by blast

theorem raise_score_label_top_witness:
  "raise_score_label [GameOverLayoutW, ScoreLabelW] = [ScoreLabelW, GameOverLayoutW]
   \<and> hd (raise_score_label [GameOverLayoutW, ScoreLabelW]) = ScoreLabelW"
  using raise_score_label_top [of "[GameOverLayoutW, ScoreLabelW]"]
  by (simp add: raise_score_label_def add_widget_def remove_widget_def)

end
