(* ===== verification/Game.thy ===== *)
theory Game
  imports Render
begin

text \<open>
  The simulation loop and input handling of \<open>src/widgets/game_manager.py\<close>, class
  \<open>GameManager\<close>. The widget's state is a record: the score label is a \<open>label\<close>
  (Render), each overlay (\<open>pause_layout\<close>, \<open>game_over_layout\<close>) is \<open>None\<close> or the
  layout object built for it, and \<open>children\<close> is the widget's Kivy child list, topmost
  first. The attribute \<open>self.chicken\<close> is the field \<open>gm_chicken\<close> (the name
  \<open>chicken_update\<close> is taken by \<open>Chicken.update\<close>). The random source of the spike
  generator travels in the state (\<open>rng_state\<close>). The canvas that \<open>draw_game\<close> paints
  is not kept: no code reads it back, and Render gives its contents. Every
  callback Kivy delivers is an \<open>event\<close>: the 60 Hz \<open>update\<close> tick, a key, a touch,
  a resize and the one-shot \<open>initialize_game\<close>; \<open>game_step\<close> dispatches them. An
  exception escaping a callback stops the program: \<open>game_step\<close> then returns \<open>None\<close>.
\<close>

record 'g game_manager =
  width :: real
  height :: real
  gm_chicken :: "chicken option"
  spike_generator :: "spike_generator option"
  score_manager :: score_manager
  game_over :: bool
  paused :: bool
  gm_current_score :: int
  gm_best_score :: int
  score_label :: label
  pause_layout :: "overlay option"
  game_over_layout :: "overlay option"
  children :: "widget list"
  rng_state :: 'g

text \<open>Kivy's \<open>center_x\<close> and \<open>top\<close> setters move a widget, keeping its size.\<close>

definition set_center_x :: "real \<Rightarrow> label \<Rightarrow> label" where
  "set_center_x cx l = l\<lparr>label_pos := (cx - fst (label_size l) / 2, snd (label_pos l))\<rparr>"

definition set_top :: "real \<Rightarrow> label \<Rightarrow> label" where
  "set_top t l = l\<lparr>label_pos := (fst (label_pos l), t - snd (label_size l))\<rparr>"

text \<open>\<open>GameManager.__init__\<close> on a widget of size \<open>(w, h)\<close>: no chicken and no
  spikes until \<open>initialize_game\<close> or a resize resets the game; the label shows 0 and is
  the only child. The unused attributes \<open>current_score\<close> and \<open>best_score\<close> are
  \<open>gm_current_score\<close> and \<open>gm_best_score\<close>; the bindings and the clock schedule
  are the events of \<open>game_step\<close>.\<close>

definition game_manager_init :: "real \<Rightarrow> real \<Rightarrow> 'g \<Rightarrow> 'g game_manager" where
  "game_manager_init w h g =
     \<lparr>width = w, height = h, gm_chicken = None, spike_generator = None,
      score_manager = score_manager_init, game_over = False, paused = False,
      gm_current_score = 0, gm_best_score = 0,
      score_label = \<lparr>label_text = ''0'', label_pos = (w / 2, h), label_size = (160, 60)\<rparr>,
      pause_layout = None, game_over_layout = None,
      children = add_widget ScoreLabelW [], rng_state = g\<rparr>"

text \<open>\<open>GameManager.clear_overlays\<close>.\<close>

definition clear_overlays :: "'g game_manager \<Rightarrow> 'g game_manager" where
  "clear_overlays s =
     (let s1 = (if pause_layout s \<noteq> None
                then s\<lparr>children := remove_widget PauseLayoutW (children s), pause_layout := None\<rparr>
                else s)
      in if game_over_layout s1 \<noteq> None
         then s1\<lparr>children := remove_widget GameOverLayoutW (children s1), game_over_layout := None\<rparr>
         else s1)"

text \<open>\<open>GameManager.update_score_display\<close>: the label shows \<open>str\<close> of the current score.\<close>

definition update_score_display :: "'g game_manager \<Rightarrow> 'g game_manager" where
  "update_score_display s =
     s\<lparr>score_label := (score_label s)\<lparr>label_text := py_str_int (current_score (score_manager s))\<rparr>\<rparr>"

text \<open>\<open>GameManager.reset_game\<close>: overlays are cleared first, the rest only for a widget
  of positive size; a new chicken at the centre (size 30), a new spike generator, and the
  label centred 20 below the top.\<close>

definition reset_game :: "'g rng \<Rightarrow> 'g game_manager \<Rightarrow> 'g game_manager" where
  "reset_game rnd s =
     (let s1 = clear_overlays s
      in if width s1 > 0 \<and> height s1 > 0 then
           (case make_spike_generator rnd (width s1) (height s1) (rng_state s1) of
              (sg, g') \<Rightarrow>
                let s2 = update_score_display
                           (s1\<lparr>gm_chicken := Some (make_chicken (width s1 / 2) (height s1 / 2) 30),
                               spike_generator := Some sg, rng_state := g',
                               score_manager := reset_current_score (score_manager s1),
                               game_over := False, paused := False\<rparr>)
                in s2\<lparr>score_label := set_top (height s2 - 20)
                                       (set_center_x (width s2 / 2) (score_label s2))\<rparr>)
         else s1)"

text \<open>\<open>GameManager.show_pause_menu\<close>. Its guard is
  \<open>self.pause_layout or not hasattr(self.pause_layout, 'canvas')\<close>: with no layout
  (\<open>None\<close>, which has no \<open>canvas\<close>) the second disjunct holds, with one the first
  does, so the method always returns before building the menu.\<close>

definition show_pause_menu :: "'g game_manager \<Rightarrow> 'g game_manager" where
  "show_pause_menu s =
     (if pause_layout s \<noteq> None \<or> \<not> (pause_layout s \<noteq> None) then s
      else s\<lparr>pause_layout := Some (pause_overlay (width s) (height s)),
             children := add_widget PauseLayoutW (children s)\<rparr>)"

text \<open>\<open>GameManager.update_pause_menu\<close>.\<close>

definition update_pause_menu :: "'g game_manager \<Rightarrow> 'g game_manager" where
  "update_pause_menu s =
     (if paused s then show_pause_menu s
      else if pause_layout s \<noteq> None
      then s\<lparr>children := remove_widget PauseLayoutW (children s), pause_layout := None\<rparr>
      else s)"

text \<open>\<open>GameManager.show_game_over\<close>.\<close>

definition show_game_over :: "'g game_manager \<Rightarrow> 'g game_manager" where
  "show_game_over s =
     (if game_over_layout s \<noteq> None then s
      else s\<lparr>game_over_layout := Some (game_over_overlay (width s) (height s) (score_manager s)),
             children := add_widget GameOverLayoutW (children s)\<rparr>)"

text \<open>\<open>GameManager.initialize_game\<close> and \<open>GameManager.on_size_change\<close> (the Kivy
  size property is set before the bound callback runs).\<close>

definition initialize_game :: "'g rng \<Rightarrow> 'g game_manager \<Rightarrow> 'g game_manager" where
  "initialize_game rnd s = (if width s > 0 \<and> height s > 0 then reset_game rnd s else s)"

definition on_size_change :: "'g rng \<Rightarrow> real \<Rightarrow> real \<Rightarrow> 'g game_manager \<Rightarrow> 'g game_manager" where
  "on_size_change rnd w h s =
     (let s1 = s\<lparr>width := w, height := h\<rparr>
      in if w > 0 \<and> h > 0
         then reset_game rnd (s1\<lparr>score_label := set_top (h - 20) (set_center_x (w / 2) (score_label s1))\<rparr>)
         else s1)"

text \<open>\<open>GameManager.on_key_down\<close>: space (32) or up (273) jumps, \<open>r\<close> (114) restarts
  after a game over, \<open>p\<close> (112) or escape (27) toggles the pause.\<close>

definition on_key_down :: "'g rng \<Rightarrow> int \<Rightarrow> 'g game_manager \<Rightarrow> 'g game_manager" where
  "on_key_down rnd key s =
     (if (key = 32 \<or> key = 273) \<and> gm_chicken s \<noteq> None \<and> \<not> game_over s \<and> \<not> paused s
      then s\<lparr>gm_chicken := map_option jump (gm_chicken s)\<rparr>
      else if key = 114 \<and> game_over s then reset_game rnd s
      else if (key = 112 \<or> key = 27) \<and> \<not> game_over s
      then update_pause_menu (s\<lparr>paused := \<not> paused s\<rparr>)
      else s)"

text \<open>\<open>GameManager.on_touch_down\<close>.\<close>

definition on_touch_down :: "'g rng \<Rightarrow> 'g game_manager \<Rightarrow> 'g game_manager" where
  "on_touch_down rnd s =
     (if game_over s then reset_game rnd s
      else if paused s then update_pause_menu (s\<lparr>paused := False\<rparr>)
      else if gm_chicken s \<noteq> None then s\<lparr>gm_chicken := map_option jump (gm_chicken s)\<rparr>
      else s)"

text \<open>Lines 155--174 of \<open>GameManager.update\<close>, for a running game with chicken \<open>c\<close>
  and generator \<open>sg\<close>: move the chicken; on a wall hit add a point, show it and
  regenerate a column at the new difficulty; a spike hit kills the chicken; a dead
  chicken ends the game.\<close>

definition game_tick ::
  "'g rng \<Rightarrow> real \<Rightarrow> chicken \<Rightarrow> spike_generator \<Rightarrow> 'g game_manager \<Rightarrow> 'g game_manager option" where
  "game_tick rnd dt c sg s =
     (case chicken_update dt (width s, height s) c of ((wall_hit, coords), c1) \<Rightarrow>
      let s1 = s\<lparr>gm_chicken := Some c1\<rparr>;
          regen =
            (if wall_hit then
               (let s2 = update_score_display (s1\<lparr>score_manager := add_point (score_manager s1)\<rparr>)
                in map_option (\<lambda>(sg', g'). (s2\<lparr>spike_generator := Some sg', rng_state := g'\<rparr>, sg'))
                     (regenerate_spikes rnd coords (difficulty_level (score_manager s2)) sg
                        (rng_state s2)))
             else Some (s1, sg))
      in case regen of
           None \<Rightarrow> None
         | Some (s3, sg3) \<Rightarrow>
             (let c3 = (if check_collisions sg3 c1 then c1\<lparr>alive := False\<rparr> else c1);
                  s4 = s3\<lparr>gm_chicken := Some c3\<rparr>
              in Some (if \<not> alive c3 then s4\<lparr>game_over := True\<rparr> else s4)))"

text \<open>\<open>GameManager.update(dt)\<close>: after the tick, \<open>draw_game\<close> repaints the canvas and
  raises the score label to the top of the children (\<open>raise_score_label\<close>, Render).\<close>

definition game_update :: "'g rng \<Rightarrow> real \<Rightarrow> 'g game_manager \<Rightarrow> 'g game_manager option" where
  "game_update rnd dt s =
     (if game_over s then Some (if game_over_layout s = None then show_game_over s else s)
      else if paused s then Some s
      else case (gm_chicken s, spike_generator s) of
             (Some c, Some sg) \<Rightarrow>
               map_option (\<lambda>s'. s'\<lparr>children := raise_score_label (children s')\<rparr>)
                 (game_tick rnd dt c sg s)
           | _ \<Rightarrow> Some s)"

text \<open>The callbacks Kivy delivers, and one step of the program on each.\<close>

datatype event = Tick real | KeyDown int | TouchDown | Resize real real | Initialize

primrec game_step :: "'g rng \<Rightarrow> event \<Rightarrow> 'g game_manager \<Rightarrow> 'g game_manager option" where
  "game_step rnd (Tick dt) s = game_update rnd dt s"
| "game_step rnd (KeyDown k) s = Some (on_key_down rnd k s)"
| "game_step rnd TouchDown s = Some (on_touch_down rnd s)"
| "game_step rnd (Resize w h) s = Some (on_size_change rnd w h s)"
| "game_step rnd Initialize s = Some (initialize_game rnd s)"

text \<open>Runs: a sequence of events from a state, stopping at an uncaught exception.\<close>

fun game_run :: "'g rng \<Rightarrow> event list \<Rightarrow> 'g game_manager \<Rightarrow> 'g game_manager option" where
  "game_run rnd [] s = Some s"
| "game_run rnd (e # es) s = Option.bind (game_step rnd e s) (game_run rnd es)"

inductive reachable :: "'g rng \<Rightarrow> 'g game_manager \<Rightarrow> bool" for rnd :: "'g rng" where
  init: "reachable rnd (game_manager_init w h g)"
| step: "reachable rnd s \<Longrightarrow> game_step rnd e s = Some s' \<Longrightarrow> reachable rnd s'"

text \<open>The game of the examples: a 200 by 105 widget initialised with the replayed draws.\<close>

definition demo_game :: "real list game_manager" where
  "demo_game = initialize_game list_rng (game_manager_init 200 105 demo_draws)"

text \<open>The abstract state machine of the spec (section 4.4): the state the player sees,
  and the transitions allowed for each kind of event.\<close>

datatype game_state = Running | Paused | GameOver

definition abs_state :: "'g game_manager \<Rightarrow> game_state" where
  "abs_state s = (if game_over s then GameOver else if paused s then Paused else Running)"

inductive spec_trans :: "event \<Rightarrow> game_state \<Rightarrow> game_state \<Rightarrow> bool" where
  stay: "spec_trans e q q"
| pause: "k = 112 \<or> k = 27 \<Longrightarrow> spec_trans (KeyDown k) Running Paused"
| resume_key: "k = 112 \<or> k = 27 \<Longrightarrow> spec_trans (KeyDown k) Paused Running"
| resume_touch: "spec_trans TouchDown Paused Running"
| die: "spec_trans (Tick dt) Running GameOver"
| restart_key: "spec_trans (KeyDown 114) GameOver Running"
| restart_touch: "spec_trans TouchDown GameOver Running"
| resize: "0 < w \<Longrightarrow> 0 < h \<Longrightarrow> spec_trans (Resize w h) q Running"
| initialize: "spec_trans Initialize q Running"

text \<open>The invariant of the program state.\<close>

definition game_inv :: "'g game_manager \<Rightarrow> bool" where
  "game_inv s \<longleftrightarrow>
     (gm_chicken s = None \<longleftrightarrow> spike_generator s = None)
     \<and> (case spike_generator s of None \<Rightarrow> True | Some sg \<Rightarrow> spikes_wf sg)
     \<and> score_inv (score_manager s)
     \<and> label_text (score_label s) = py_str_int (current_score (score_manager s))
     \<and> \<not> (paused s \<and> game_over s)
     \<and> (case gm_chicken s of None \<Rightarrow> \<not> game_over s | Some c \<Rightarrow> (alive c \<longleftrightarrow> \<not> game_over s))
     \<and> pause_layout s = None
     \<and> (case game_over_layout s of
          None \<Rightarrow> children s = [ScoreLabelW]
        | Some ov \<Rightarrow> game_over s \<and> children s = [GameOverLayoutW, ScoreLabelW]
            \<and> map label_text (overlay_labels ov)
                = [game_over_text (current_score (score_manager s)) (high_score (score_manager s))])"

text \<open>The state after one tick of a running game: the moved chicken \<open>c1\<close>, killed by a
  spike of the field \<open>sg'\<close>, the point and the label on a wall hit.\<close>

abbreviation tick_state ::
  "'g game_manager \<Rightarrow> bool \<Rightarrow> chicken \<Rightarrow> spike_generator \<Rightarrow> 'g \<Rightarrow> 'g game_manager" where
  "tick_state s hit c1 sg' g' \<equiv> s\<lparr>
     gm_chicken := Some (if check_collisions sg' c1 then c1\<lparr>alive := False\<rparr> else c1),
     spike_generator := Some sg', rng_state := g',
     score_manager := (if hit then add_point (score_manager s) else score_manager s),
     score_label := (if hit then (score_label s)\<lparr>label_text := py_str_int (current_score (add_point (score_manager s)))\<rparr>
                     else score_label s),
     game_over := (game_over s \<or> \<not> alive c1 \<or> check_collisions sg' c1)\<rparr>"

subsection \<open>Helper lemmas on the callbacks\<close>

lemma clear_overlays_sel [simp]:
  "width (clear_overlays s) = width s" "height (clear_overlays s) = height s"
  "gm_chicken (clear_overlays s) = gm_chicken s" "spike_generator (clear_overlays s) = spike_generator s"
  "score_manager (clear_overlays s) = score_manager s" "game_over (clear_overlays s) = game_over s"
  "paused (clear_overlays s) = paused s" "score_label (clear_overlays s) = score_label s"
  "rng_state (clear_overlays s) = rng_state s"
  "pause_layout (clear_overlays s) = None" "game_over_layout (clear_overlays s) = None"
  by (simp_all add: clear_overlays_def Let_def)

lemma label_setters [simp]:
  "label_text (set_center_x x l) = label_text l" "label_size (set_center_x x l) = label_size l"
  "label_text (set_top y l) = label_text l" "label_size (set_top y l) = label_size l"
  by (simp_all add: set_center_x_def set_top_def)

lemma set_top_center_x_pos:
  "label_pos (set_top y (set_center_x x l)) = (x - fst (label_size l) / 2, y - snd (label_size l))"
  by (simp add: set_center_x_def set_top_def)

lemma children_update_id: "children s = cs \<Longrightarrow> s\<lparr>children := cs\<rparr> = s"
  by simp

lemma raise_score_label_single [simp]: "raise_score_label [ScoreLabelW] = [ScoreLabelW]"
  by (simp add: raise_score_label_def add_widget_def remove_widget_def)

lemma show_pause_menu_id: "show_pause_menu s = s"
  by (auto simp: show_pause_menu_def)

lemma update_pause_menu_noop: "pause_layout s = None \<Longrightarrow> update_pause_menu s = s"
  by (simp add: update_pause_menu_def show_pause_menu_id)

lemma reset_game_eq:
  "reset_game rnd s =
     (if width s > 0 \<and> height s > 0 then
        (clear_overlays s)\<lparr>gm_chicken := Some (make_chicken (width s / 2) (height s / 2) 30),
          spike_generator := Some (fst (make_spike_generator rnd (width s) (height s) (rng_state s))),
          rng_state := snd (make_spike_generator rnd (width s) (height s) (rng_state s)),
          score_manager := reset_current_score (score_manager s),
          game_over := False, paused := False,
          score_label := set_top (height s - 20) (set_center_x (width s / 2)
            ((score_label s)\<lparr>label_text := py_str_int (current_score (reset_current_score (score_manager s)))\<rparr>))\<rparr>
      else clear_overlays s)"
  by (simp add: reset_game_def update_score_display_def Let_def split: prod.splits)

subsection \<open>Each callback keeps the invariant\<close>

lemma game_inv_init: "game_inv (game_manager_init w h g)"
  using score_inv_init
  by (simp add: game_inv_def game_manager_init_def score_manager_init_def add_widget_def
      py_str_int_def nat_str.simps digit_char_def)

lemma game_inv_no_pause_layout: "game_inv s \<Longrightarrow> pause_layout s = None"
  by (simp add: game_inv_def)

lemma clear_overlays_children: "game_inv s \<Longrightarrow> children (clear_overlays s) = [ScoreLabelW]"
  by (auto simp: clear_overlays_def Let_def game_inv_def remove_widget_def split: option.splits)

lemma reset_game_inv: "game_inv s \<Longrightarrow> game_inv (reset_game rnd s)"
proof -
  assume inv: "game_inv s"
  then have "game_inv (clear_overlays s)"
    by (auto simp: game_inv_def clear_overlays_children split: option.splits)
  with inv show ?thesis
    by (auto simp: reset_game_eq game_inv_def clear_overlays_children make_spike_generator_wf
        reset_current_score_inv make_chicken_def split: option.splits)
qed

lemma game_inv_jump:
  "game_inv s \<Longrightarrow> game_inv (s\<lparr>gm_chicken := map_option jump (gm_chicken s)\<rparr>)"
  by (auto simp: game_inv_def jump_def split: option.splits)

lemma game_inv_pause:
  "game_inv s \<Longrightarrow> \<not> game_over s \<Longrightarrow> game_inv (s\<lparr>paused := p\<rparr>)"
  by (auto simp: game_inv_def split: option.splits)

lemma on_key_down_inv: "game_inv s \<Longrightarrow> game_inv (on_key_down rnd k s)"
  by (simp add: on_key_down_def update_pause_menu_noop game_inv_no_pause_layout game_inv_jump
      game_inv_pause reset_game_inv)

lemma on_touch_down_inv: "game_inv s \<Longrightarrow> game_inv (on_touch_down rnd s)"
  by (simp add: on_touch_down_def update_pause_menu_noop game_inv_no_pause_layout game_inv_jump
      game_inv_pause reset_game_inv)

lemma game_inv_resize:
  "game_inv s \<Longrightarrow> label_text l = label_text (score_label s)
   \<Longrightarrow> game_inv (s\<lparr>width := w, height := h, score_label := l\<rparr>)"
  by (auto simp: game_inv_def split: option.splits)

lemma on_size_change_inv: "game_inv s \<Longrightarrow> game_inv (on_size_change rnd w h s)"
  using game_inv_resize [of s "score_label s"]
    game_inv_resize [of s "set_top (h - 20) (set_center_x (w / 2) (score_label s))"]
  by (simp add: on_size_change_def Let_def reset_game_inv)

lemma initialize_game_inv: "game_inv s \<Longrightarrow> game_inv (initialize_game rnd s)"
  by (simp add: initialize_game_def reset_game_inv)

subsection \<open>One tick of a running game\<close>

lemma game_tick_eq:
  assumes wf: "spikes_wf sg" and sgs: "spike_generator s = Some sg"
    and cu: "chicken_update dt (width s, height s) c = ((hit, coords), c1)"
  obtains sg' g' where "game_tick rnd dt c sg s = Some (tick_state s hit c1 sg' g')"
    and "spikes_wf sg'"
    and "\<not> hit \<Longrightarrow> sg' = sg \<and> g' = rng_state s"
    and "hit \<Longrightarrow> regenerate_spikes rnd coords (difficulty_level (add_point (score_manager s))) sg
                   (rng_state s) = Some (sg', g')"
proof (cases hit)
  case True
  from regenerate_spikes_wf [OF wf, of rnd coords "difficulty_level (add_point (score_manager s))"
      "rng_state s"]
  obtain sg' g' where
    r: "regenerate_spikes rnd coords (difficulty_level (add_point (score_manager s))) sg (rng_state s)
        = Some (sg', g')" and w: "spikes_wf sg'"
    by blast
  show ?thesis
    by (rule that [of sg' g'])
       (use True cu r w in \<open>auto simp: game_tick_def update_score_display_def Let_def\<close>)
next
  case False
  show ?thesis
    by (rule that [of sg "rng_state s"])
       (use False cu wf sgs in \<open>auto simp: game_tick_def Let_def\<close>)
qed

lemma game_inv_running_children:
  "game_inv s \<Longrightarrow> \<not> game_over s \<Longrightarrow> game_over_layout s = None \<and> children s = [ScoreLabelW]"
  by (auto simp: game_inv_def split: option.splits)

lemma game_tick_inv:
  assumes inv: "game_inv s" and ch: "gm_chicken s = Some c" and sgs: "spike_generator s = Some sg"
    and run: "\<not> game_over s" and unpaused: "\<not> paused s"
  shows "\<exists>s'. game_tick rnd dt c sg s = Some s' \<and> game_inv s' \<and> children s' = [ScoreLabelW]"
proof -
  obtain hit coords c1 where cu: "chicken_update dt (width s, height s) c = ((hit, coords), c1)"
    by (metis prod.collapse)
  from inv sgs have wf: "spikes_wf sg" by (simp add: game_inv_def)
  obtain sg' g' where eq: "game_tick rnd dt c sg s = Some (tick_state s hit c1 sg' g')"
    and wf': "spikes_wf sg'"
    by (rule game_tick_eq [OF wf sgs cu])
  from inv have si: "score_inv (score_manager s)" by (simp add: game_inv_def)
  from game_inv_running_children [OF inv run]
  have gl: "game_over_layout s = None" and cs: "children s = [ScoreLabelW]" by simp_all
  with inv run unpaused ch wf' si show ?thesis
    by (simp add: eq game_inv_def add_point_inv)
qed

lemma game_update_idle:
  "game_over s \<Longrightarrow> game_update rnd dt s = Some (show_game_over s)"
  "\<not> game_over s \<Longrightarrow> paused s \<Longrightarrow> game_update rnd dt s = Some s"
  by (auto simp: game_update_def show_game_over_def)

lemma show_game_over_inv: "game_inv s \<Longrightarrow> game_over s \<Longrightarrow> game_inv (show_game_over s)"
  by (auto simp: show_game_over_def game_inv_def game_over_overlay_def add_widget_def
      split: option.splits)

lemma game_update_inv:
  assumes inv: "game_inv s"
  shows "\<exists>s'. game_update rnd dt s = Some s' \<and> game_inv s'"
proof (cases "game_over s \<or> paused s")
  case True
  with inv show ?thesis
    by (cases "game_over s") (simp_all add: game_update_idle show_game_over_inv)
next
  case False
  show ?thesis
  proof (cases "gm_chicken s")
    case None
    with inv False show ?thesis by (auto simp: game_update_def game_inv_def)
  next
    case (Some c)
    with inv obtain sg where sgs: "spike_generator s = Some sg"
      by (auto simp: game_inv_def)
    from game_tick_inv [OF inv Some sgs, of rnd dt] False Some sgs show ?thesis
      by (auto simp: game_update_def children_update_id)
  qed
qed

lemma game_step_inv: "game_inv s \<Longrightarrow> \<exists>s'. game_step rnd e s = Some s' \<and> game_inv s'"
  by (cases e) (simp_all add: game_update_inv on_key_down_inv on_touch_down_inv on_size_change_inv
      initialize_game_inv)

lemma reachable_inv: "reachable rnd s \<Longrightarrow> game_inv s"
proof (induction rule: reachable.induct)
  case (init w h g)
  then show ?case by (rule game_inv_init)
next
  case (step s e s')
  then show ?case using game_step_inv [of s rnd e] by auto
qed

lemma game_update_running:
  assumes inv: "game_inv s" and go: "\<not> game_over s" and pa: "\<not> paused s"
    and ch: "gm_chicken s = Some c"
    and cu: "chicken_update dt (width s, height s) c = ((hit, coords), c1)"
  obtains sg sg' g' where "spike_generator s = Some sg" and "spikes_wf sg'"
    and "game_update rnd dt s = Some (tick_state s hit c1 sg' g')"
proof -
  from inv ch obtain sg where sgs: "spike_generator s = Some sg"
    by (auto simp: game_inv_def)
  with inv have wf: "spikes_wf sg" by (simp add: game_inv_def)
  obtain sg' g' where eq: "game_tick rnd dt c sg s = Some (tick_state s hit c1 sg' g')"
    and wf': "spikes_wf sg'"
    by (rule game_tick_eq [OF wf sgs cu])
  from game_inv_running_children [OF inv go] have cs: "children s = [ScoreLabelW]" by simp
  show ?thesis
    by (rule that [of sg sg' g', OF sgs wf'])
       (simp add: game_update_def go pa ch sgs eq cs children_update_id)
qed

text \<open>The chicken's horizontal speed is that of \<open>Chicken.__init__\<close> and it never moves
  vertically through \<open>velocity\<close> (gravity and jumps act on \<open>gravity_velocity\<close>).\<close>

definition speed_ok :: "'g game_manager \<Rightarrow> bool" where
  "speed_ok s \<longleftrightarrow>
     (case gm_chicken s of None \<Rightarrow> True | Some c \<Rightarrow> \<bar>fst (velocity c)\<bar> = 180 \<and> snd (velocity c) = 0)"

lemma speed_ok_reset: "speed_ok s \<Longrightarrow> speed_ok (reset_game rnd s)"
  by (simp add: reset_game_eq speed_ok_def make_chicken_def)

lemma speed_ok_sel:
  "speed_ok (s\<lparr>gm_chicken := map_option jump (gm_chicken s)\<rparr>) = speed_ok s"
  "speed_ok (s\<lparr>paused := p\<rparr>) = speed_ok s"
  "speed_ok (s\<lparr>width := w, height := h\<rparr>) = speed_ok s"
  "speed_ok (s\<lparr>width := w, height := h, score_label := l\<rparr>) = speed_ok s"
  by (simp_all add: speed_ok_def jump_velocity split: option.split)

lemma speed_ok_key: "game_inv s \<Longrightarrow> speed_ok s \<Longrightarrow> speed_ok (on_key_down rnd k s)"
  by (simp add: on_key_down_def update_pause_menu_noop game_inv_no_pause_layout speed_ok_reset
      speed_ok_sel)

lemma speed_ok_touch: "game_inv s \<Longrightarrow> speed_ok s \<Longrightarrow> speed_ok (on_touch_down rnd s)"
  by (simp add: on_touch_down_def update_pause_menu_noop game_inv_no_pause_layout speed_ok_reset
      speed_ok_sel)

lemma game_update_idle_chicken:
  assumes "game_over s \<or> paused s \<or> gm_chicken s = None" and "game_update rnd dt s = Some s'"
  shows "gm_chicken s' = gm_chicken s"
proof -
  consider "game_over s" | "\<not> game_over s" "paused s" | "\<not> game_over s" "\<not> paused s" "gm_chicken s = None"
    using assms(1) by auto
  then show ?thesis
  proof cases
    case 1
    with assms(2) show ?thesis by (auto simp: game_update_idle show_game_over_def split: if_splits)
  next
    case 2
    with assms(2) show ?thesis by (simp add: game_update_idle)
  next
    case 3
    with assms(2) show ?thesis by (simp add: game_update_def)
  qed
qed

lemma speed_ok_update:
  assumes inv: "game_inv s" and ok: "speed_ok s" and u: "game_update rnd dt s = Some s'"
  shows "speed_ok s'"
proof (cases "game_over s \<or> paused s \<or> gm_chicken s = None")
  case True
  with ok game_update_idle_chicken [OF True u] show ?thesis by (simp add: speed_ok_def)
next
  case False
  then obtain c where go: "\<not> game_over s" and pa: "\<not> paused s" and ch: "gm_chicken s = Some c"
    by auto
  obtain hit coords c1 where cu: "chicken_update dt (width s, height s) c = ((hit, coords), c1)"
    by (metis prod.collapse)
  obtain sg sg' g' where "game_update rnd dt s = Some (tick_state s hit c1 sg' g')"
    by (rule game_update_running [OF inv go pa ch cu])
  with u have s': "s' = tick_state s hit c1 sg' g'" by simp
  have "\<bar>fst (velocity c1)\<bar> = \<bar>fst (velocity c)\<bar> \<and> snd (velocity c1) = snd (velocity c)"
    using chicken_update_velocity [of dt "(width s, height s)" c] cu by simp
  with ok ch show ?thesis by (simp add: s' speed_ok_def)
qed

lemma game_step_speed:
  "game_inv s \<Longrightarrow> speed_ok s \<Longrightarrow> game_step rnd e s = Some s' \<Longrightarrow> speed_ok s'"
proof (cases e)
  case (Tick dt)
  assume "game_inv s" "speed_ok s" "game_step rnd e s = Some s'"
  with Tick show ?thesis by (simp add: speed_ok_update)
qed (auto simp: speed_ok_key speed_ok_touch on_size_change_def initialize_game_def Let_def
      speed_ok_reset speed_ok_sel)

lemma reachable_speed: "reachable rnd s \<Longrightarrow> speed_ok s"
proof (induction rule: reachable.induct)
  case (init w h g)
  then show ?case by (simp add: speed_ok_def game_manager_init_def)
next
  case (step s e s')
  then show ?case using game_step_speed reachable_inv by blast
qed

subsection \<open>Properties of the program\<close>

text \<open>C1 In every reachable state: the chicken and the spike generator exist together, the
  field is well formed, the label shows the current score, the score invariant holds, the
  game is never paused and over at once, and the game is over exactly when the chicken is
  dead (with no game over before the first reset).\<close>

theorem reachable_invariant:
  assumes "reachable rnd s"
  shows "(gm_chicken s = None \<longleftrightarrow> spike_generator s = None)
    \<and> (\<forall>sg. spike_generator s = Some sg \<longrightarrow> spikes_wf sg)
    \<and> label_text (score_label s) = py_str_int (current_score (score_manager s))
    \<and> 0 \<le> current_score (score_manager s)
    \<and> current_score (score_manager s) \<le> high_score (score_manager s)
    \<and> difficulty_level (score_manager s) = 1 + current_score (score_manager s) div 5
    \<and> \<not> (paused s \<and> game_over s)
    \<and> (game_over s \<longrightarrow> gm_chicken s \<noteq> None)
    \<and> (\<forall>c. gm_chicken s = Some c \<longrightarrow> (alive c \<longleftrightarrow> \<not> game_over s))"
  using reachable_inv [OF assms]
  by (auto simp: game_inv_def score_inv_def split: option.splits)

text \<open>C3 No callback of a reachable state raises: in particular the item assignment of
  \<open>regenerate_spikes\<close> is always in range.\<close>

theorem reachable_no_exception:
  "reachable rnd s \<Longrightarrow> game_step rnd e s \<noteq> None"
  using reachable_inv game_step_inv by fastforce

text \<open>C23 The pause overlay is never shown: the guard of \<open>show_pause_menu\<close> is always
  true, so in every reachable state there is no pause layout, even right after the pause key.\<close>

theorem pause_menu_never_shown:
  "reachable rnd s \<Longrightarrow> pause_layout s = None \<and> pause_layout (on_key_down rnd 112 s) = None"
  using reachable_inv [of rnd s] on_key_down_inv [of s rnd 112]
  by (simp add: game_inv_no_pause_layout)

text \<open>C25 A tick does no physics while paused (the state is unchanged) or after the game is
  over: the first such tick attaches the game-over overlay on top of the children, later
  ones change nothing.\<close>

theorem idle_ticks:
  "(paused s \<and> \<not> game_over s \<longrightarrow> game_update rnd dt s = Some s)
   \<and> (game_over s \<longrightarrow> game_update rnd dt s =
        Some (if game_over_layout s = None
              then s\<lparr>game_over_layout := Some (game_over_overlay (width s) (height s) (score_manager s)),
                     children := GameOverLayoutW # children s\<rparr>
              else s))"
  by (simp add: game_update_idle show_game_over_def add_widget_def)

text \<open>C24 Jump input is masked: the jump keys change nothing while paused or after a game
  over, and in a reachable paused game a touch resumes without jumping.\<close>

theorem jump_masked:
  "((k = 32 \<or> k = 273) \<and> (paused s \<or> game_over s) \<longrightarrow> on_key_down rnd k s = s)
   \<and> (reachable rnd s \<and> paused s \<longrightarrow> on_touch_down rnd s = s\<lparr>paused := False\<rparr>)"
proof (intro conjI impI)
  assume "(k = 32 \<or> k = 273) \<and> (paused s \<or> game_over s)"
  then show "on_key_down rnd k s = s" by (auto simp: on_key_down_def)
next
  assume h: "reachable rnd s \<and> paused s"
  then have "game_inv s" using reachable_inv by blast
  with h show "on_touch_down rnd s = s\<lparr>paused := False\<rparr>"
    by (auto simp: on_touch_down_def game_inv_def update_pause_menu_noop)
qed

text \<open>C5 A tick of a running reachable game adds exactly one point when the chicken
  bounced and none otherwise, and the label then shows the new score.\<close>

theorem tick_scores_bounce:
  assumes "reachable rnd s" and "\<not> game_over s" and "\<not> paused s" and "gm_chicken s = Some c"
    and "game_update rnd dt s = Some s'"
  shows "current_score (score_manager s') = current_score (score_manager s)
           + (if fst (fst (chicken_update dt (width s, height s) c)) then 1 else 0)
    \<and> label_text (score_label s') = py_str_int (current_score (score_manager s'))"
proof -
  obtain hit coords c1 where cu: "chicken_update dt (width s, height s) c = ((hit, coords), c1)"
    by (metis prod.collapse)
  have inv: "game_inv s" by (rule reachable_inv [OF assms(1)])
  from game_update_running [OF inv assms(2,3,4) cu] obtain sg sg' g' where
    "game_update rnd dt s = Some (tick_state s hit c1 sg' g')" .
  with assms(5) inv cu show ?thesis
    by (auto simp: add_point_fields game_inv_def)
qed

text \<open>C4 A tick of a running reachable game ends it exactly when the moved chicken left
  the vertical bounds or hits a spike of the field after regeneration; the dead chicken is
  kept and the field stays well formed.\<close>

theorem tick_game_over_iff:
  assumes "reachable rnd s" and "\<not> game_over s" and "\<not> paused s" and "gm_chicken s = Some c"
    and "game_update rnd dt s = Some s'"
  shows "\<exists>sg'. spike_generator s' = Some sg' \<and> spikes_wf sg'
    \<and> (game_over s' \<longleftrightarrow> \<not> alive (snd (chicken_update dt (width s, height s) c))
                         \<or> check_collisions sg' (snd (chicken_update dt (width s, height s) c)))
    \<and> (\<forall>c'. gm_chicken s' = Some c' \<longrightarrow> (alive c' \<longleftrightarrow> \<not> game_over s'))"
proof -
  obtain hit coords c1 where cu: "chicken_update dt (width s, height s) c = ((hit, coords), c1)"
    by (metis prod.collapse)
  have inv: "game_inv s" by (rule reachable_inv [OF assms(1)])
  from game_update_running [OF inv assms(2,3,4) cu] obtain sg sg' g' where
    wf: "spikes_wf sg'" and "game_update rnd dt s = Some (tick_state s hit c1 sg' g')" .
  with assms(2,5) cu show ?thesis by auto
qed

lemma reset_game_high: "high_score (score_manager (reset_game rnd s)) = high_score (score_manager s)"
  by (simp add: reset_game_eq reset_current_score_fields)

lemma game_tick_high:
  "game_tick rnd dt c sg s = Some s' \<Longrightarrow> high_score (score_manager s) \<le> high_score (score_manager s')"
  by (auto simp: game_tick_def Let_def update_score_display_def add_point_fields
      split: prod.splits option.splits if_splits)

lemma game_step_high:
  "game_step rnd e s = Some s' \<Longrightarrow> high_score (score_manager s) \<le> high_score (score_manager s')"
proof (cases e)
  case (Tick dt)
  assume "game_step rnd e s = Some s'"
  with Tick show ?thesis
    by (auto simp: game_update_def show_game_over_def game_tick_high split: option.splits if_splits)
qed (auto simp: on_key_down_def on_touch_down_def on_size_change_def initialize_game_def
      update_pause_menu_def show_pause_menu_def reset_game_high Let_def jump_def)

text \<open>C21 No sequence of callbacks ever lowers the high score: along any run that does
  not stop on an exception, the final high score is at least the initial one.\<close>

theorem run_high_score_mono:
  "game_run rnd es s = Some s' \<Longrightarrow> high_score (score_manager s) \<le> high_score (score_manager s')"
proof (induction es arbitrary: s)
  case Nil
  then show ?case by simp
next
  case (Cons e es)
  then obtain t where t: "game_step rnd e s = Some t" and r: "game_run rnd es t = Some s'"
    by (auto split: Option.bind_splits)
  from game_step_high [OF t] Cons.IH [OF r] show ?case by linarith
qed

text \<open>C22 Restart after a game over (key \<open>r\<close>) on a widget of positive size builds a new
  living chicken at the centre and a new well-formed field, sets the score to 0 and the
  level to 1, keeps the high score, and leaves the game running with no overlay, the score
  label centred and its top 20 below the widget's top.\<close>

theorem restart_resets:
  assumes "game_over s" and "0 < width s" and "0 < height s"
  shows "gm_chicken (on_key_down rnd 114 s) = Some (make_chicken (width s / 2) (height s / 2) 30)
    \<and> alive (make_chicken (width s / 2) (height s / 2) 30)
    \<and> (\<exists>sg. spike_generator (on_key_down rnd 114 s) = Some sg \<and> spikes_wf sg)
    \<and> current_score (score_manager (on_key_down rnd 114 s)) = 0
    \<and> difficulty_level (score_manager (on_key_down rnd 114 s)) = 1
    \<and> high_score (score_manager (on_key_down rnd 114 s)) = high_score (score_manager s)
    \<and> abs_state (on_key_down rnd 114 s) = Running
    \<and> game_over_layout (on_key_down rnd 114 s) = None
    \<and> label_pos (score_label (on_key_down rnd 114 s))
        = (width s / 2 - fst (label_size (score_label s)) / 2,
           height s - 20 - snd (label_size (score_label s)))"
  using assms make_spike_generator_wf [of rnd "width s" "height s" "rng_state s"]
  by (simp add: on_key_down_def reset_game_eq reset_current_score_fields abs_state_def
      make_chicken_def set_top_center_x_pos)

text \<open>C34 While the widget has a zero or negative dimension, neither the restart key nor a
  touch leaves a game over: \<open>reset_game\<close> only removes the overlays, and the game stays
  over with no overlay (the next tick shows it again).\<close>

theorem restart_needs_size:
  assumes "game_over s" and "width s \<le> 0 \<or> height s \<le> 0"
  shows "on_key_down rnd 114 s = clear_overlays s
    \<and> on_touch_down rnd s = clear_overlays s
    \<and> game_over_layout (on_key_down rnd 114 s) = None
    \<and> abs_state (on_key_down rnd 114 s) = GameOver"
  using assms by (auto simp: on_key_down_def on_touch_down_def reset_game_eq abs_state_def)

lemma reset_game_abs:
  "abs_state (reset_game rnd s) = (if 0 < width s \<and> 0 < height s then Running else abs_state s)"
  by (simp add: reset_game_eq abs_state_def)

lemma abs_state_upd:
  "abs_state (s\<lparr>gm_chicken := x\<rparr>) = abs_state s"
  "abs_state (s\<lparr>paused := p\<rparr>) = (if game_over s then GameOver else if p then Paused else Running)"
  "game_over s \<Longrightarrow> abs_state s = GameOver"
  "\<not> game_over s \<Longrightarrow> paused s \<Longrightarrow> abs_state s = Paused"
  by (simp_all add: abs_state_def)

lemma on_key_down_abs:
  assumes "pause_layout s = None" and "\<not> (paused s \<and> game_over s)"
  shows "abs_state (on_key_down rnd k s) =
    (if (k = 32 \<or> k = 273) \<and> gm_chicken s \<noteq> None \<and> \<not> game_over s \<and> \<not> paused s
     then abs_state s
     else if k = 114 \<and> game_over s
     then (if 0 < width s \<and> 0 < height s then Running else GameOver)
     else if (k = 112 \<or> k = 27) \<and> \<not> game_over s then (if paused s then Running else Paused)
     else abs_state s)"
  using assms by (simp add: on_key_down_def update_pause_menu_noop reset_game_abs abs_state_upd)

lemma on_touch_down_abs:
  assumes "pause_layout s = None"
  shows "abs_state (on_touch_down rnd s) =
    (if game_over s then (if 0 < width s \<and> 0 < height s then Running else GameOver)
     else if paused s then Running else abs_state s)"
  using assms by (simp add: on_touch_down_def update_pause_menu_noop reset_game_abs abs_state_upd)

lemma game_update_trans:
  "game_update rnd dt s = Some s' \<Longrightarrow> spec_trans (Tick dt) (abs_state s) (abs_state s')"
proof (cases "game_over s \<or> paused s")
  case True
  assume "game_update rnd dt s = Some s'"
  with True have "game_over s' = game_over s \<and> paused s' = paused s"
    by (auto simp: game_update_def show_game_over_def split: if_splits)
  then show ?thesis by (simp add: abs_state_def spec_trans.stay)
next
  case False
  assume u: "game_update rnd dt s = Some s'"
  from False have "abs_state s = Running" by (simp add: abs_state_def)
  moreover from u False have "\<not> paused s'"
    by (auto simp: game_update_def game_tick_def Let_def update_score_display_def
        split: option.splits prod.splits if_splits)
  ultimately show ?thesis
    by (cases "game_over s'") (auto simp: abs_state_def intro: spec_trans.intros)
qed

lemma on_size_change_trans:
  "spec_trans (Resize w h) (abs_state s) (abs_state (on_size_change rnd w h s))"
proof (cases "0 < w \<and> 0 < h")
  case True
  then have "abs_state (on_size_change rnd w h s) = Running"
    by (simp add: on_size_change_def reset_game_abs)
  with True show ?thesis by (simp add: spec_trans.resize)
next
  case False
  then have "abs_state (on_size_change rnd w h s) = abs_state s"
    by (auto simp: on_size_change_def abs_state_def)
  then show ?thesis by (simp add: spec_trans.stay)
qed

lemma initialize_game_trans:
  "spec_trans Initialize (abs_state s) (abs_state (initialize_game rnd s))"
  by (cases "0 < width s \<and> 0 < height s")
     (simp_all add: initialize_game_def reset_game_abs spec_trans.initialize spec_trans.stay)

text \<open>C2 The program refines the spec's state machine: from a reachable state every
  callback moves the abstract state (Running, Paused, GameOver) along a transition the spec
  allows for that event; in particular a paused game never ends and a finished game is
  never paused.\<close>

theorem step_refines_spec:
  assumes "reachable rnd s" and "game_step rnd e s = Some s'"
  shows "spec_trans e (abs_state s) (abs_state s')"
proof -
  have inv: "game_inv s" by (rule reachable_inv [OF assms(1)])
  then have pl: "pause_layout s = None" and po: "\<not> (paused s \<and> game_over s)"
    by (simp_all add: game_inv_def)
  show ?thesis
  proof (cases e)
    case (Tick dt)
    with assms(2) show ?thesis by (simp add: game_update_trans)
  next
    case (KeyDown k)
    with assms(2) on_key_down_abs [OF pl po, of rnd k] show ?thesis
      by (auto simp: abs_state_def intro: spec_trans.intros split: if_splits)
  next
    case TouchDown
    with assms(2) on_touch_down_abs [OF pl, of rnd] show ?thesis
      by (auto simp: abs_state_def intro: spec_trans.intros split: if_splits)
  next
    case (Resize w h)
    with assms(2) on_size_change_trans [of w h s rnd] show ?thesis by simp
  next
    case Initialize
    with assms(2) initialize_game_trans [of s rnd] show ?thesis by simp
  qed
qed

text \<open>C6 In every reachable state the widget tree is the score label alone, with the
  game-over overlay on top of it once shown, and never the pause overlay; the label's text
  reads back as the current score, and the overlay's text reads back as the score and the
  best score.\<close>

theorem reachable_widgets:
  assumes "reachable rnd s"
  shows "children s = (if game_over_layout s = None then [ScoreLabelW] else [GameOverLayoutW, ScoreLabelW])
    \<and> parse_int (label_text (score_label s)) = Some (current_score (score_manager s))
    \<and> (\<forall>ov. game_over_layout s = Some ov \<longrightarrow> game_over s
         \<and> map (\<lambda>l. read_game_over_text (label_text l)) (overlay_labels ov)
             = [Some (current_score (score_manager s), high_score (score_manager s))])"
proof -
  have inv: "game_inv s" by (rule reachable_inv [OF assms])
  have m: "map (\<lambda>l. read_game_over_text (label_text l)) ls
             = map read_game_over_text (map label_text ls)" for ls :: "label list"
    by simp
  from inv show ?thesis
    by (auto simp: game_inv_def parse_int_py_str_int m read_game_over_text_eq split: option.splits)
qed

text \<open>C17 In every reachable state the chicken moves horizontally at 180 units per second
  to one side or the other and never vertically through \<open>velocity\<close>, so the beak drawn
  always points the way it moves (its direction is the sign of the velocity, never the
  default of a zero velocity).\<close>

theorem chicken_speed_constant:
  assumes "reachable rnd s" and "gm_chicken s = Some c"
  shows "\<bar>fst (velocity c)\<bar> = 180 \<and> snd (velocity c) = 0
    \<and> chicken_direction c = sgn (fst (velocity c))"
  using reachable_speed [OF assms(1)] assms(2)
  by (auto simp: speed_ok_def chicken_direction_def sgn_if)

subsection \<open>Witnesses\<close>

lemma demo_game_reachable: "reachable list_rng demo_game"
proof -
  have "reachable list_rng (game_manager_init 200 105 demo_draws)" by (rule reachable.init)
  moreover have "game_step list_rng Initialize (game_manager_init 200 105 demo_draws) = Some demo_game"
    by (simp add: demo_game_def)
  ultimately show ?thesis by (rule reachable.step)
qed

lemma demo_game_fields:
  "width demo_game = 200 \<and> height demo_game = 105 \<and> \<not> game_over demo_game \<and> \<not> paused demo_game
   \<and> gm_chicken demo_game = Some (make_chicken 100 (105 / 2) 30)
   \<and> current_score (score_manager demo_game) = 0 \<and> high_score (score_manager demo_game) = 0"
  by (simp add: demo_game_def initialize_game_def game_manager_init_def reset_game_eq
      reset_current_score_fields score_manager_init_def)

lemma demo_paused_reachable: "reachable list_rng (on_key_down list_rng 112 demo_game)"
proof (rule reachable.step [OF demo_game_reachable])
  show "game_step list_rng (KeyDown 112) demo_game = Some (on_key_down list_rng 112 demo_game)"
    by simp
qed

lemma demo_paused_fields:
  "paused (on_key_down list_rng 112 demo_game) \<and> \<not> game_over (on_key_down list_rng 112 demo_game)"
  using demo_game_fields by (simp add: on_key_down_def update_pause_menu_def show_pause_menu_def)

theorem reachable_invariant_witness:
  "label_text (score_label demo_game) = ''0'' \<and> alive (make_chicken 100 (105 / 2) 30)"
  using reachable_invariant [OF demo_game_reachable] demo_game_fields
  by (auto simp: py_str_int_def nat_str.simps digit_char_def)

theorem reachable_no_exception_witness: "game_step list_rng (Tick (1 / 60)) demo_game \<noteq> None"
  using reachable_no_exception [OF demo_game_reachable] by blast

theorem pause_menu_never_shown_witness:
  "paused (on_key_down list_rng 112 demo_game) \<and> pause_layout (on_key_down list_rng 112 demo_game) = None"
  using pause_menu_never_shown [OF demo_game_reachable] demo_paused_fields by simp

theorem idle_ticks_witness:
  "game_update list_rng (1 / 60) (on_key_down list_rng 112 demo_game)
     = Some (on_key_down list_rng 112 demo_game)"
  using idle_ticks [of "on_key_down list_rng 112 demo_game" list_rng "1 / 60"] demo_paused_fields
  by simp

theorem jump_masked_witness:
  "on_key_down list_rng 32 (on_key_down list_rng 112 demo_game) = on_key_down list_rng 112 demo_game
   \<and> on_touch_down list_rng (on_key_down list_rng 112 demo_game)
       = (on_key_down list_rng 112 demo_game)\<lparr>paused := False\<rparr>"
  using jump_masked [of 32 "on_key_down list_rng 112 demo_game" list_rng] demo_paused_reachable
    demo_paused_fields
  by simp

lemma demo_tick_exists: "\<exists>s'. game_update list_rng (1 / 60) demo_game = Some s'"
  using game_step_inv [OF reachable_inv [OF demo_game_reachable], of list_rng "Tick (1 / 60)"]
  by auto

lemma demo_no_bounce:
  "\<not> fst (fst (chicken_update (1 / 60) (200, 105) (make_chicken 100 (105 / 2) 30)))"
  by (simp add: chicken_update_def wall_bounce_def make_chicken_def Let_def)

theorem tick_scores_bounce_witness:
  "\<exists>s'. game_update list_rng (1 / 60) demo_game = Some s' \<and> current_score (score_manager s') = 0"
proof -
  obtain s' where s': "game_update list_rng (1 / 60) demo_game = Some s'"
    using demo_tick_exists by blast
  from tick_scores_bounce [OF demo_game_reachable _ _ _ s'] demo_game_fields demo_no_bounce s'
  show ?thesis by auto
qed

theorem tick_game_over_iff_witness:
  "\<exists>s' sg'. game_update list_rng (1 / 60) demo_game = Some s'
     \<and> spike_generator s' = Some sg' \<and> spikes_wf sg'"
proof -
  obtain s' where s': "game_update list_rng (1 / 60) demo_game = Some s'"
    using demo_tick_exists by blast
  from tick_game_over_iff [OF demo_game_reachable _ _ _ s'] demo_game_fields s'
  show ?thesis by blast
qed

theorem run_high_score_mono_witness:
  "high_score (score_manager demo_game)
     \<le> high_score (score_manager (on_touch_down list_rng (on_key_down list_rng 112 demo_game)))"
  using run_high_score_mono [of list_rng "[KeyDown 112, TouchDown]" demo_game
      "on_touch_down list_rng (on_key_down list_rng 112 demo_game)"]
  by simp

theorem restart_resets_witness:
  "current_score (score_manager (on_key_down list_rng 114 (demo_game\<lparr>game_over := True\<rparr>))) = 0
   \<and> abs_state (on_key_down list_rng 114 (demo_game\<lparr>game_over := True\<rparr>)) = Running"
  using restart_resets [of "demo_game\<lparr>game_over := True\<rparr>" list_rng] demo_game_fields by simp

theorem restart_needs_size_witness:
  "abs_state (on_key_down list_rng 114 (demo_game\<lparr>game_over := True, width := 0\<rparr>)) = GameOver"
  using restart_needs_size [of "demo_game\<lparr>game_over := True, width := 0\<rparr>" list_rng]
  by (simp add: abs_state_def)

theorem step_refines_spec_witness: "spec_trans (KeyDown 112) Running Paused"
proof -
  have "spec_trans (KeyDown 112) (abs_state demo_game) (abs_state (on_key_down list_rng 112 demo_game))"
    by (rule step_refines_spec [OF demo_game_reachable]) simp
  with demo_game_fields demo_paused_fields show ?thesis by (simp add: abs_state_def)
qed

theorem reachable_widgets_witness:
  "children demo_game = [ScoreLabelW] \<and> parse_int (label_text (score_label demo_game)) = Some 0"
  using reachable_widgets [OF demo_game_reachable] demo_game_fields
  by (simp add: demo_game_def initialize_game_def reset_game_eq game_manager_init_def)

theorem chicken_speed_constant_witness:
  "\<bar>fst (velocity (make_chicken 100 (105 / 2) 30))\<bar> = 180
   \<and> chicken_direction (make_chicken 100 (105 / 2) 30) = 1"
  using chicken_speed_constant [OF demo_game_reachable, of "make_chicken 100 (105 / 2) 30"]
    demo_game_fields
  by (simp add: make_chicken_def)

end
