(* ===== verification/App.thy ===== *)
theory App
  imports Game
begin

text \<open>
  The entry point, \<open>src/main.py\<close>: \<open>GameApp.build\<close> sets the window to 1000 by 700 and
  returns a new \<open>GameManager\<close> as the root widget; \<open>GameApp().run()\<close> then lays the
  root out at the window's size (Kivy calls the bound \<open>on_size_change\<close>) and, on the first
  frame, runs the scheduled \<open>initialize_game\<close>; every later callback is an event of
  \<open>game_step\<close>. A fresh widget has Kivy's default size 100 by 100.
\<close>

definition window_size :: vec where
  "window_size = (1000, 700)"

definition game_app_build :: "'g \<Rightarrow> 'g game_manager" where
  "game_app_build g = game_manager_init 100 100 g"

definition game_app_run :: "'g rng \<Rightarrow> 'g \<Rightarrow> event list \<Rightarrow> 'g game_manager option" where
  "game_app_run rnd g es =
     game_run rnd (Resize (fst window_size) (snd window_size) # Initialize # es) (game_app_build g)"

lemma game_app_start_eq:
  "game_app_run rnd g [] =
     Some (initialize_game rnd (on_size_change rnd 1000 700 (game_manager_init 100 100 g)))"
  by (simp add: game_app_run_def game_app_build_def window_size_def)

lemma game_app_start_reachable: "reachable rnd (initialize_game rnd (on_size_change rnd 1000 700 (game_manager_init 100 100 g)))"
proof -
  have r0: "reachable rnd (game_manager_init 100 100 g)" by (rule reachable.init)
  have r1: "reachable rnd (on_size_change rnd 1000 700 (game_manager_init 100 100 g))"
    by (rule reachable.step [OF r0, of "Resize 1000 700"]) simp
  show ?thesis by (rule reachable.step [OF r1, of Initialize]) simp
qed

text \<open>C16 Starting the app gives a running game in a 1000 by 700 field: the chicken alive at
  the centre (500, 350), a well-formed spike field, score 0 at level 1, the score label
  centred 20 below the top, no overlay, and a reachable state, whatever the random draws.\<close>

theorem app_starts_running:
  "\<exists>s. game_app_run rnd g [] = Some s \<and> reachable rnd s
     \<and> width s = 1000 \<and> height s = 700
     \<and> gm_chicken s = Some (make_chicken 500 350 30)
     \<and> (\<exists>sg. spike_generator s = Some sg \<and> spikes_wf sg)
     \<and> current_score (score_manager s) = 0 \<and> difficulty_level (score_manager s) = 1
     \<and> abs_state s = Running \<and> game_over_layout s = None
     \<and> label_pos (score_label s) = (420, 620)"
proof -
  let ?s = "initialize_game rnd (on_size_change rnd 1000 700 (game_manager_init 100 100 g))"
  have r: "reachable rnd ?s" by (rule game_app_start_reachable)
  have sg: "\<exists>sg. spike_generator ?s = Some sg \<and> spikes_wf sg"
    using reachable_inv [OF r]
    by (simp add: game_inv_def initialize_game_def on_size_change_def reset_game_eq Let_def
        split: option.splits)
  have f: "width ?s = 1000 \<and> height ?s = 700 \<and> gm_chicken ?s = Some (make_chicken 500 350 30)
     \<and> current_score (score_manager ?s) = 0 \<and> difficulty_level (score_manager ?s) = 1
     \<and> abs_state ?s = Running \<and> game_over_layout ?s = None
     \<and> label_pos (score_label ?s) = (420, 620)"
    by (simp add: initialize_game_def on_size_change_def reset_game_eq Let_def abs_state_def
        reset_current_score_fields game_manager_init_def set_top_center_x_pos)
  show ?thesis using r sg f game_app_start_eq [of rnd g] by blast
qed

end
