(* ===== verification/Spec2Isabelle.thy ===== *)
theory Spec2Isabelle
  imports App
begin

text \<open>
  \<^bold>\<open>A verified model of the chicken wall-jumping game.\<close>

  The program (\<open>src/\<close>) is a Kivy arcade game: a chicken bounces between two walls while
  gravity pulls it down, the player jumps to avoid spikes on the walls, and every wall hit
  scores a point and redraws the spikes of one wall. Its parts and how they interact:
  \<^item> \<open>widgets/character.py\<close>, class \<open>Chicken\<close>: position and velocities, \<open>jump\<close>,
    \<open>update\<close> (gravity, motion, wall bounce, death test) and \<open>get_rect\<close>;
  \<^item> \<open>widgets/obstacles.py\<close>, class \<open>Spike\<close>: a rectangle with an orientation, its
    triangle and the strict rectangle-overlap test;
  \<^item> \<open>widgets/obstacles_manager.py\<close>, class \<open>SpikeGenerator\<close>: two columns of spikes
    drawn at random band by band, \<open>regenerate_spikes\<close> and \<open>check_collisions\<close>, which
    calls \<open>Chicken.get_rect\<close> and \<open>Spike.check_collision\<close>;
  \<^item> \<open>widgets/score_manager.py\<close>, class \<open>ScoreManager\<close>: score, high score, level;
  \<^item> \<open>widgets/game_manager.py\<close>, class \<open>GameManager\<close>: owns all of the above, reacts to
    Kivy's callbacks (60 Hz \<open>update\<close>, keys, touches, resizes, the first
    \<open>initialize_game\<close>), shows the score in a label and the overlays, and draws. Each tick
    moves the chicken; a wall hit adds a point and regenerates a column at the new level; a
    spike hit or leaving the vertical bounds ends the game; then \<open>draw_game\<close> repaints;
  \<^item> \<open>main.py\<close>, class \<open>GameApp\<close>: builds the 1000 by 700 window and the root
    \<open>GameManager\<close>.

  \<^bold>\<open>Theories.\<close>
  \<^item> \<open>Prelude\<close>: the types \<open>vec\<close> (a Kivy \<open>Vector\<close> as a pair of reals), \<open>rect\<close>
    and \<open>'g rng\<close> (one call of \<open>random.random()\<close> on an explicit generator state
    \<open>'g\<close>); \<open>draws\<close>/\<open>rng_after\<close> for repeated draws; \<open>list_rng\<close>, a replay
    source for examples; \<open>py_setitem\<close>, Python's \<open>xs[i] = v\<close> with \<open>IndexError\<close>
    as \<open>None\<close>; the collection \<open>wf_simps\<close> of invariant definitions.
  \<^item> \<open>PyStr\<close>: Python's \<open>str\<close> on integers (\<open>py_str_int\<close>, the digit loop
    \<open>nat_str\<close> defined with \<open>function\<close> and a measure), and the reference reader
    \<open>parse_int\<close>, whose round trip \<open>parse_int_py_str_int\<close> lets C6 say what the
    score label shows.
  \<^item> \<open>Score\<close> (\<open>ScoreManager\<close>): record \<open>score_manager\<close>, \<open>add_point\<close>,
    \<open>reset_current_score\<close>; invariant \<open>score_inv\<close>; runs \<open>score_run\<close> of a
    \<open>score_op\<close> list. Claims C18--C20.
  \<^item> \<open>Spike\<close> (\<open>Spike\<close>): record \<open>spike\<close>, \<open>make_spike\<close>, \<open>get_collision_rect\<close>,
    \<open>get_triangle_points\<close>, \<open>check_collision\<close>; the reference \<open>rect_overlap\<close>
    (open rectangles meet). Claim C29.
  \<^item> \<open>Chicken\<close> (\<open>Chicken\<close>): record \<open>chicken\<close>, \<open>make_chicken\<close>, \<open>jump\<close>,
    \<open>wall_bounce\<close> (lines 33--42 of \<open>update\<close>), \<open>chicken_update\<close> (the whole
    \<open>update\<close>, returning the Python result beside the new chicken), \<open>get_rect\<close>.
    Claims C7--C10, C31, C32: the bounce flag, the clamp into \<open>[r, w - r]\<close>, the
    sign flip, the death test, the dead sentinel and jump; the lemma
    \<open>spec_example_bounce\<close> evaluates the spec's end-to-end example.
  \<^item> \<open>Obstacles\<close> (\<open>SpikeGenerator\<close>): record \<open>spike_generator\<close>, the band loop
    \<open>spike_column_loop\<close> (structural recursion on the bands left, so no fuel is needed),
    \<open>generate_spike_column\<close>, \<open>generate_initial_spikes\<close>, \<open>make_spike_generator\<close>,
    \<open>gap_probability\<close>, \<open>regenerate_spikes\<close> (option-valued), the nested early-return
    loops \<open>any_spike_hit\<close>/\<open>any_column_hit\<close> and \<open>check_collisions\<close>. The
    specification \<open>column_spec\<close> (one spike per band whose draw exceeds the gap) and the
    invariant \<open>spikes_wf\<close>. Claims C11, C13--C15, C30, C33: the column chosen by
    \<open>regenerate_spikes\<close>, invariant and absence of \<open>IndexError\<close>, equivalence of the
    loops with an existential, refinement of the loop by \<open>column_spec\<close>, a spike-free
    corridor and the gap bounds.
  \<^item> \<open>Render\<close> (the drawing methods of \<open>GameManager\<close>): a Kivy canvas as a list of
    graphics instructions (\<open>instr\<close>), a \<open>Label\<close> as the record \<open>label\<close>, a
    \<open>FloatLayout\<close> overlay as \<open>overlay\<close>, the children of a widget as a list of
    \<open>widget\<close>s, topmost first, with Kivy's \<open>add_widget\<close>/\<open>remove_widget\<close>;
    \<open>draw_walls\<close>, \<open>draw_chicken\<close>, \<open>draw_center_orb\<close> (the clock reading is a
    parameter), \<open>draw_spikes\<close>, \<open>draw_game\<close> and its re-raise of the score label
    \<open>raise_score_label\<close>; the layouts \<open>game_over_overlay\<close> and \<open>pause_overlay\<close>
    and the game-over text. Readers \<open>triangles\<close>, \<open>polylines\<close> and
    \<open>read_game_over_text\<close> give what the display shows. Claims C26--C28, C35: the
    game-over text round-trips, the spikes drawn are the field's triangles with closed
    outlines, a frame has one triangle per spike plus the beak of a living chicken, and the
    beak faces the motion.
  \<^item> \<open>Game\<close> (\<open>GameManager\<close>): record \<open>game_manager\<close> (\<open>self.chicken\<close> is
    \<open>gm_chicken\<close>; each overlay is \<open>None\<close> or the layout built for it; the score label
    is a \<open>label\<close>; \<open>children\<close> is the Kivy child list; the random source is
    \<open>rng_state\<close>), one definition per callback (\<open>reset_game\<close>,
    \<open>clear_overlays\<close>, \<open>update_score_display\<close>, \<open>show_pause_menu\<close>,
    \<open>update_pause_menu\<close>, \<open>show_game_over\<close>, \<open>initialize_game\<close>,
    \<open>on_size_change\<close>, \<open>on_key_down\<close>, \<open>on_touch_down\<close>, \<open>game_update\<close> with its
    running part \<open>game_tick\<close>), the \<open>event\<close> datatype and \<open>game_step\<close>, runs
    \<open>game_run\<close> (an exception stops a run: \<open>None\<close>), and the reachable states as the
    inductive \<open>reachable\<close>. The spec's abstract machine is \<open>game_state\<close>,
    \<open>abs_state\<close> and the inductive \<open>spec_trans\<close>. The invariant \<open>game_inv\<close>
    (which also fixes the widget tree and what the label and overlay say) and the speed
    invariant \<open>speed_ok\<close> are proved for every callback and lifted to reachable states
    by rule induction. Claims C1--C6, C17, C21--C25, C34: the invariant, refinement of the
    spec's state machine, no exception, the game-over condition, scoring per bounce, the
    widget tree and its texts, the constant speed, the high score along runs, restart, the
    pause overlay that is never shown, input masking, idle ticks, and restart on a
    degenerate widget.
  \<^item> \<open>App\<close> (\<open>main.py\<close>): \<open>game_app_build\<close> and \<open>game_app_run\<close>, the start-up
    sequence (layout at the window size, then \<open>initialize_game\<close>) before the events.
    Claim C16: the app starts into a running, reachable game.
  \<^item> This theory: properties across components. C12: after a bounce, regeneration keeps the
    column of the wall just touched and replaces the one the chicken heads to by a freshly
    drawn column.

  \<^bold>\<open>Modelling choices.\<close> Python floats are exact reals (no claim depends on rounding);
  Python ints are \<open>int\<close>; \<open>//\<close> on non-negative ints is \<open>div\<close> and on floats
  \<open>\<lfloor>_\<rfloor>\<close>. The global \<open>random\<close> module is the explicit source \<open>rnd\<close> with its state
  threaded through the game state, so every definition is a function and examples replay
  chosen draws; a draw may be any real, a superset of the \<open>[0, 1)\<close> of
  \<open>random.random()\<close>, and every claim holds for all of them. Every loop of the code is bounded (\<open>range\<close>, lists), so all recursion is
  structural, except the digit loop of \<open>str\<close>, whose termination is proved by a measure;
  there is no fuel. The only exception the code can raise on its data,
  \<open>IndexError\<close> in \<open>regenerate_spikes\<close>, is a \<open>None\<close> result, and C3 shows it never
  happens from a reachable state. Kivy's \<open>add_widget\<close> raises only for a widget with a
  parent; every call of the program adds a freshly built layout or the label just removed,
  so the model's \<open>add_widget\<close> is total.

  \<^bold>\<open>Not modelled.\<close> The canvas \<open>draw_game\<close> paints is given by \<open>Render\<close> but not
  kept in the state (nothing reads it back); the fonts, text colours and alignment of the
  labels, \<open>Window.clearcolor\<close>, and the clock's actual readings (\<open>Clock.get_time()\<close>
  is a parameter of \<open>draw_center_orb\<close>). Kivy's scheduling is abstracted to an arbitrary
  sequence of callbacks after the start-up sequence of \<open>App\<close>.

  \<^bold>\<open>Findings.\<close> \<open>show_pause_menu\<close>'s guard is always true, so pausing never shows its
  menu (C23); the column regenerated is the one far from the bounce, where the spec's data
  model says the near one (C11, C12); the spec's example places the right-wall bounce at
  970, the code at \<open>width - radius = 985\<close> (\<open>Chicken.spec_example_bounce\<close>);
  restart is ignored while the widget has a zero dimension (C34); the beak faces left for a
  zero horizontal velocity, a case the spec leaves open and the game never reaches (C17).
\<close>

subsection \<open>Properties across components\<close>

text \<open>C12 When the chicken bounces in a field whose width is the spike generator's and
  exceeds the chicken's diameter, the regeneration that follows keeps the column of the wall
  just touched, from which the chicken now moves away, and replaces the other column, the
  one the chicken is heading to, by a column freshly drawn at the level's gap probability:
  after a left-wall bounce (x clamped to the radius, velocity \<open>+|v|\<close>) column 0 is kept and
  column 1 is a new right-wall column; after a right-wall bounce (x = width - radius,
  velocity \<open>-|v|\<close>) column 1 is kept and column 0 is a new left-wall column.\<close>

theorem bounce_keeps_touched_column:
  assumes "alive c" and "2 * real_of_int (radius c) < screen_width sg"
    and "length (spikes sg) = 2"
    and "chicken_update dt (screen_width sg, h) c = ((True, coords), c1)"
    and "regenerate_spikes rnd coords d sg g = Some (sg', g')"
  shows "(fst coords = real_of_int (radius c) \<and> fst (velocity c1) = \<bar>fst (velocity c)\<bar>
          \<and> spikes sg' ! 0 = spikes sg ! 0
          \<and> spikes sg' ! 1 = fst (generate_spike_column rnd sg (screen_width sg - wall_thickness sg)
                                   False (gap_probability d) g))
       \<or> (fst coords = screen_width sg - real_of_int (radius c)
          \<and> fst (velocity c1) = - \<bar>fst (velocity c)\<bar> \<and> spikes sg' ! 1 = spikes sg ! 1
          \<and> spikes sg' ! 0 = fst (generate_spike_column rnd sg 0 True (gap_probability d) g))"
proof -
  let ?r = "real_of_int (radius c)"
  let ?wb = "wall_bounce ?r (screen_width sg) (raw_x dt c) (fst (velocity c))"
  from chicken_update_alive [OF assms(1), of dt "(screen_width sg, h)"] assms(4)
  have hit: "snd (snd ?wb)" and x: "fst coords = fst ?wb" and v: "fst (velocity c1) = fst (snd ?wb)"
    by auto
  from wall_bounce_hit_cases [OF hit] show ?thesis
  proof
    assume l: "fst ?wb = ?r \<and> fst (snd ?wb) = \<bar>fst (velocity c)\<bar>"
    with assms(2) x have "\<not> fst coords > screen_width sg / 2" by simp
    with assms(3,5) have "spikes sg' ! 0 = spikes sg ! 0
        \<and> spikes sg' ! 1 = fst (generate_spike_column rnd sg (screen_width sg - wall_thickness sg)
                                 False (gap_probability d) g)"
      by (auto simp: regenerate_spikes_eq)
    with l x v show ?thesis by simp
  next
    assume rt: "fst ?wb = screen_width sg - ?r \<and> fst (snd ?wb) = - \<bar>fst (velocity c)\<bar>"
    with assms(2) x have "fst coords > screen_width sg / 2" by simp
    with assms(3,5) have "spikes sg' ! 1 = spikes sg ! 1
        \<and> spikes sg' ! 0 = fst (generate_spike_column rnd sg 0 True (gap_probability d) g)"
      by (auto simp: regenerate_spikes_eq)
    with rt x v show ?thesis by simp
  qed
qed

subsection \<open>Witnesses\<close>

theorem bounce_keeps_touched_column_witness:
  "spikes (fst (the (regenerate_spikes list_rng (185, 50) 1
      (fst (make_spike_generator list_rng 200 105 demo_draws)) [1, 0, 0]))) ! 1
   = [make_spike 160 35 40 33 False]"
proof -
  let ?sg = "fst (make_spike_generator list_rng 200 105 demo_draws)"
  let ?c = "make_chicken 190 50 30"
  have len: "length (spikes ?sg) = 2" by (simp add: demo_spikes)
  have w: "screen_width ?sg = 200" by (simp add: demo_fields)
  have cu: "chicken_update 0 (screen_width ?sg, 105) ?c = ((True, (185, 50)), snd (chicken_update 0 (200, 105) ?c))"
    by (simp add: w chicken_update_def wall_bounce_def make_chicken_def Let_def)
  have "\<exists>sg' g'. regenerate_spikes list_rng (185, 50) 1 ?sg [1, 0, 0] = Some (sg', g')"
    by (simp add: regenerate_spikes_eq [OF len])
  then obtain sg' g' where r: "regenerate_spikes list_rng (185, 50) 1 ?sg [1, 0, 0] = Some (sg', g')"
    by blast
  have a: "alive ?c" "2 * real_of_int (radius ?c) < screen_width ?sg"
    by (simp_all add: make_chicken_def w)
  have rad: "real_of_int (radius ?c) = 15" by (simp add: make_chicken_def)
  from bounce_keeps_touched_column [OF a len cu r] w rad
  have "spikes sg' ! 1 = spikes ?sg ! 1" by auto
  also have "\<dots> = [make_spike 160 35 40 33 False]" by (simp add: demo_spikes)
  finally have "spikes sg' ! 1 = [make_spike 160 35 40 33 False]" .
  then show ?thesis using r by simp
qed

end
